theory Spec2Isabelle
  imports Main "HOL-Library.Word"
begin

unbundle bit_operations_syntax

section \<open>Go values shared by the migrator and the reconciler\<close>

text \<open>
  A Go \<^verbatim>\<open>byte\<close> is an 8-bit word, a \<^verbatim>\<open>string\<close> a list of bytes
  (\<^typ>\<open>string\<close>), a \<^verbatim>\<open>net.IP\<close> a byte slice. A function that can panic
  returns an \<open>outcome\<close>: the panic is a value, never an unspecified result.
\<close>

type_synonym byte = "8 word"

datatype 'a outcome = Returned 'a | Panicked string

text \<open>
  Errors. \<open>Errorf\<close> keeps the format string and its arguments, \<open>StatusError\<close> is
  the API machinery's error with its reason, \<open>ParseError\<close> is the one of package
  \<^verbatim>\<open>net\<close>, and \<open>Mask\<close> is \<^verbatim>\<open>microerror.Mask\<close>, which wraps a non-nil
  error and keeps its cause.
\<close>

datatype StatusReason =
    StatusReasonUnknown
  | StatusReasonNotFound
  | StatusReasonAlreadyExists
  | StatusReasonForbidden
  | StatusReasonInternalError

datatype error =
    Errorf string "string list"
  | StatusError StatusReason
  | ParseError string string
  | TemplateError string
  | Mask error

fun ReasonForError :: "error option \<Rightarrow> StatusReason" where
  "ReasonForError (Some (StatusError r)) = r"
| "ReasonForError _ = StatusReasonUnknown"

definition IsAlreadyExists :: "error option \<Rightarrow> bool" where
  "IsAlreadyExists err = (ReasonForError err = StatusReasonAlreadyExists)"

section \<open>Package net: the functions the migrator calls\<close>

text \<open>
  \<^verbatim>\<open>net.ParseCIDR\<close>, \<^verbatim>\<open>net.IPv4\<close>, \<^verbatim>\<open>IP.To4\<close>, \<^verbatim>\<open>IP.Mask\<close>,
  \<^verbatim>\<open>net.CIDRMask\<close> and \<^verbatim>\<open>IP.String\<close> belong to Go's standard library, not to
  the repository. They are written out here after the library's source, for the
  dotted-decimal IPv4 notation; the library's IPv6 address parser and printer are
  parameters (\<open>parseIPv6\<close>, \<open>ipv6String\<close>), reached only when the text is not
  an IPv4 address.
\<close>

type_synonym IP = "byte list"

record IPNet =
  IP :: IP
  IPMask :: "byte list"

definition IPv4len :: nat where "IPv4len = 4"
definition IPv6len :: nat where "IPv6len = 16"

definition v4InV6Prefix :: "byte list" where
  "v4InV6Prefix = [0, 0, 0, 0, 0, 0, 0, 0, 0, 0, 0xff, 0xff]"

definition IPv4 :: "byte \<Rightarrow> byte \<Rightarrow> byte \<Rightarrow> byte \<Rightarrow> IP" where
  "IPv4 a b c d = v4InV6Prefix @ [a, b, c, d]"

definition isZeros :: "byte list \<Rightarrow> bool" where
  "isZeros p = list_all (\<lambda>b. b = 0) p"

text \<open>\<^verbatim>\<open>IP.To4\<close>: \<open>None\<close> is the nil slice.\<close>

definition To4 :: "IP \<Rightarrow> IP option" where
  "To4 ip =
     (if length ip = IPv4len then Some ip
      else if length ip = IPv6len \<and> isZeros (take 10 ip) \<and> ip ! 10 = 0xff \<and> ip ! 11 = 0xff
        then Some (drop 12 ip)
      else None)"

text \<open>\<^verbatim>\<open>dtoi\<close>: decimal to integer, with the number of bytes consumed.\<close>

definition big :: nat where "big = 0xFFFFFF"

definition isDigit :: "char \<Rightarrow> bool" where
  "isDigit c = (48 \<le> (of_char c :: nat) \<and> (of_char c :: nat) \<le> 57)"

fun dtoi_from :: "string \<Rightarrow> nat \<Rightarrow> nat \<Rightarrow> nat \<times> nat \<times> bool" where
  "dtoi_from [] n i = (if i = 0 then (0, 0, False) else (n, i, True))"
| "dtoi_from (c # cs) n i =
     (if isDigit c
      then (let n' = n * 10 + ((of_char c :: nat) - 48)
            in if n' \<ge> big then (big, i, False) else dtoi_from cs n' (i + 1))
      else if i = 0 then (0, 0, False) else (n, i, True))"

definition dtoi :: "string \<Rightarrow> nat \<times> nat \<times> bool" where
  "dtoi s = dtoi_from s 0 0"

text \<open>
  \<^verbatim>\<open>parseIPv4\<close>: four decimal fields separated by dots, each at most 255 and
  without a leading zero, and nothing after the fourth.
\<close>

fun parseIPv4_fields :: "nat \<Rightarrow> bool \<Rightarrow> string \<Rightarrow> (byte list \<times> string) option" where
  "parseIPv4_fields 0 first s = Some ([], s)"
| "parseIPv4_fields (Suc k) first s =
     (if s = [] then None
      else if (if first then False else hd s \<noteq> CHR ''.'') then None
      else (let s1 = (if first then s else tl s) in
        (case dtoi s1 of (n, c, ok) \<Rightarrow>
           if (if ok then n > 0xFF else True) then None
           else if c > 1 \<and> hd s1 = CHR ''0'' then None
           else (case parseIPv4_fields k False (drop c s1) of
                   None \<Rightarrow> None
                 | Some (p, rest) \<Rightarrow> Some (word_of_nat n # p, rest)))))"

definition parseIPv4 :: "string \<Rightarrow> IP option" where
  "parseIPv4 s =
     (case parseIPv4_fields 4 True s of
        None \<Rightarrow> None
      | Some (p, rest) \<Rightarrow>
          if rest \<noteq> [] then None else Some (IPv4 (p ! 0) (p ! 1) (p ! 2) (p ! 3)))"

text \<open>\<^verbatim>\<open>net.CIDRMask(ones, 8 * l)\<close>, for \<open>ones\<close> within range.\<close>

fun CIDRMask_bytes :: "nat \<Rightarrow> nat \<Rightarrow> byte list" where
  "CIDRMask_bytes 0 n = []"
| "CIDRMask_bytes (Suc l) n =
     (if n \<ge> 8 then 0xff # CIDRMask_bytes l (n - 8)
      else NOT (drop_bit n (0xff :: byte)) # CIDRMask_bytes l 0)"

definition CIDRMask :: "nat \<Rightarrow> nat \<Rightarrow> byte list" where
  "CIDRMask ones l = CIDRMask_bytes l ones"

text \<open>\<^verbatim>\<open>IP.Mask\<close>: \<open>None\<close> is the nil slice.\<close>

definition allFF :: "byte list \<Rightarrow> bool" where
  "allFF b = list_all (\<lambda>c. c = 0xff) b"

definition IP_Mask :: "IP \<Rightarrow> byte list \<Rightarrow> IP option" where
  "IP_Mask ip0 mask0 =
     (let msk = (if length mask0 = IPv6len \<and> length ip0 = IPv4len \<and> allFF (take 12 mask0)
                 then drop 12 mask0 else mask0);
          ip = (if length msk = IPv4len \<and> length ip0 = IPv6len \<and> take 12 ip0 = v4InV6Prefix
                then drop 12 ip0 else ip0)
      in if length ip \<noteq> length msk then None
         else Some (map (\<lambda>(x, y). x AND y) (zip ip msk)))"

text \<open>The text before and after the first occurrence of a separator byte.\<close>

fun cutAt :: "char \<Rightarrow> string \<Rightarrow> (string \<times> string) option" where
  "cutAt sep [] = None"
| "cutAt sep (c # cs) =
     (if c = sep then Some ([], cs)
      else (case cutAt sep cs of None \<Rightarrow> None | Some (a, b) \<Rightarrow> Some (c # a, b)))"

definition ParseCIDR :: "(string \<Rightarrow> IP option) \<Rightarrow> string \<Rightarrow> error + IPNet" where
  "ParseCIDR parseIPv6 s =
     (case cutAt CHR ''/'' s of
        None \<Rightarrow> Inl (ParseError ''CIDR address'' s)
      | Some (addr, msk) \<Rightarrow>
          (let (iplen, ip) = (case parseIPv4 addr of
                                Some p \<Rightarrow> (IPv4len, Some p)
                              | None \<Rightarrow> (IPv6len, parseIPv6 addr))
           in (case dtoi msk of (n, i, ok) \<Rightarrow>
             (case ip of
                None \<Rightarrow> Inl (ParseError ''CIDR address'' s)
              | Some p \<Rightarrow>
                  if (if ok then i \<noteq> length msk else True) then Inl (ParseError ''CIDR address'' s)
                  else if n > 8 * iplen then Inl (ParseError ''CIDR address'' s)
                  else (let m = CIDRMask n iplen in
                    (case IP_Mask p m of
                       None \<Rightarrow> Inl (ParseError ''CIDR address'' s)
                     | Some masked \<Rightarrow> Inr \<lparr>IP = masked, IPMask = m\<rparr>))))))"

text \<open>
  \<^verbatim>\<open>ubtoa\<close> and the dotted-decimal branch of \<^verbatim>\<open>IP.String\<close>; \<open>digit n\<close>
  is the byte \<^verbatim>\<open>n + '0'\<close> for \<open>n < 10\<close>, its only use.
\<close>

definition digit :: "nat \<Rightarrow> char" where
  "digit n = ''0123456789'' ! n"

definition ubtoa :: "byte \<Rightarrow> string" where
  "ubtoa v =
     (let n = unat v in
      if n < 10 then [digit n]
      else if n < 100 then [digit (n div 10), digit (n mod 10)]
      else [digit (n div 100), digit ((n div 10) mod 10), digit (n mod 10)])"

definition IP_String :: "(IP \<Rightarrow> string) \<Rightarrow> IP \<Rightarrow> string" where
  "IP_String ipv6String ip =
     (if length ip = 0 then ''<nil>''
      else (case To4 ip of
              Some p4 \<Rightarrow>
                ubtoa (p4 ! 0) @ ''.'' @ ubtoa (p4 ! 1) @ ''.'' @ ubtoa (p4 ! 2) @ ''.'' @ ubtoa (p4 ! 3)
            | None \<Rightarrow> ipv6String ip))"

section \<open>Field derivation: base domain and master IP\<close>

text \<open>\<^verbatim>\<open>strings.Split(s, ".")\<close> and \<^verbatim>\<open>strings.Join(a, ".")\<close>.\<close>

fun Split_dot :: "string \<Rightarrow> string list" where
  "Split_dot [] = [[]]"
| "Split_dot (c # cs) =
     (if c = CHR ''.'' then [] # Split_dot cs
      else (case Split_dot cs of
              [] \<Rightarrow> [[c]]
            | l # ls \<Rightarrow> (c # l) # ls))"

fun Join_dot :: "string list \<Rightarrow> string" where
  "Join_dot [] = []"
| "Join_dot [l] = l"
| "Join_dot (l # ls) = l @ ''.'' @ Join_dot ls"

text \<open>
  The loop of \<^verbatim>\<open>getInstallationBaseDomainFromAPIEndpoint\<close> over the labels: at the
  first label equal to \<^verbatim>\<open>"k8s"\<close> it returns the labels after it, joined.
\<close>

fun afterK8s :: "string list \<Rightarrow> string option" where
  "afterK8s [] = None"
| "afterK8s (l # ls) = (if l = ''k8s'' then Some (Join_dot ls) else afterK8s ls)"

definition getInstallationBaseDomainFromAPIEndpoint :: "string \<Rightarrow> error + string" where
  "getInstallationBaseDomainFromAPIEndpoint apiEndpoint =
     (let labels = Split_dot apiEndpoint in
      case afterK8s labels of
        Some d \<Rightarrow> Inr d
      | None \<Rightarrow>
          Inl (Mask (Errorf ''can't find domain label 'k8s' from ControlPlaneEndpoint.Host'' [])))"

text \<open>
  \<^verbatim>\<open>getMasterIPForVNet\<close>: the fourth octet is a byte, so \<open>ip[3]+4\<close> is addition
  modulo 256; an IPv6 network panics.
\<close>

definition getMasterIPForVNet :: "IPNet \<Rightarrow> IP outcome" where
  "getMasterIPForVNet vnet =
     (case To4 (IP vnet) of
        None \<Rightarrow> Panicked ''VNET CIDR is IPv6''
      | Some ip \<Rightarrow> Returned (IPv4 (ip ! 0) (ip ! 1) (ip ! 2) (ip ! 3 + 4)))"

section \<open>Kubernetes objects, the API client and the migrator\<close>

text \<open>
  Every API object embeds \<^verbatim>\<open>TypeMeta\<close> and \<^verbatim>\<open>ObjectMeta\<close>; the records extend
  one another as the Go structs embed them, with the fields the two source files read.
  A \<^verbatim>\<open>*metav1.Time\<close> is \<open>None\<close> when nil, else the seconds since Go's zero time.
  The kinds of which only the embedded metadata is read share the record \<open>Object\<close>;
  the constructor of \<open>obj\<close> tells the Go type of a value held in an
  \<^verbatim>\<open>interface{}\<close>.
\<close>

record TypeMeta =
  Kind :: string

record Object = TypeMeta +
  Name :: string
  Namespace :: string
  Labels :: "string \<rightharpoonup> string"
  DeletionTimestamp :: "int option"

record Secret = Object +
  SecretType :: string
  Data :: "string \<rightharpoonup> string"
  StringData :: "string \<rightharpoonup> string"

record AzureCluster = Object +
  ControlPlaneEndpoint_Host :: string
  Vnet_CIDRBlocks :: "string list"

record Release = Object +
  Components :: "(string \<times> string) list"

text \<open>A target object as \<^verbatim>\<open>yaml.Unmarshal\<close> decodes it: the metadata and the rest.\<close>

record Decoded = Object +
  Spec :: string

record 'a ObjectList = TypeMeta +
  Items :: "'a list"

type_synonym AzureConfig = Object
type_synonym Cluster = Object
type_synonym MachinePool = Object
type_synonym AzureMachinePool = Object

datatype obj =
    SecretObj Secret
  | AzureConfigObj AzureConfig
  | ClusterObj Cluster
  | AzureClusterObj AzureCluster
  | MachinePoolListObj "MachinePool ObjectList"
  | AzureMachinePoolListObj "AzureMachinePool ObjectList"
  | ReleaseObj Release
  | KubeadmControlPlaneObj Decoded
  | AzureMachineTemplateObj Decoded
  | KubeadmConfigTemplateObj Decoded
  | MachineDeploymentObj Decoded

text \<open>The \<^verbatim>\<open>%T\<close> of a cached value.\<close>

fun typeName :: "obj \<Rightarrow> string" where
  "typeName (SecretObj _) = ''*v1.Secret''"
| "typeName (AzureConfigObj _) = ''*v1alpha1.AzureConfig''"
| "typeName (ClusterObj _) = ''*v1alpha3.Cluster''"
| "typeName (AzureClusterObj _) = ''*v1alpha3.AzureCluster''"
| "typeName (MachinePoolListObj _) = ''*v1alpha3.MachinePoolList''"
| "typeName (AzureMachinePoolListObj _) = ''*v1alpha3.AzureMachinePoolList''"
| "typeName (ReleaseObj _) = ''*v1alpha1.Release''"
| "typeName (KubeadmControlPlaneObj _) = ''*v1alpha3.KubeadmControlPlane''"
| "typeName (AzureMachineTemplateObj _) = ''*v1alpha3.AzureMachineTemplate''"
| "typeName (KubeadmConfigTemplateObj _) = ''*v1alpha3.KubeadmConfigTemplate''"
| "typeName (MachineDeploymentObj _) = ''*v1alpha3.MachineDeployment''"

text \<open>
  \<^verbatim>\<open>ctrl.Client\<close> is an interface: a record of functions over the state \<open>'s\<close> of
  whatever implements it. \<^verbatim>\<open>Get\<close> and \<^verbatim>\<open>List\<close> pick the resource from the Go type
  of the object they fill, so there is one function per type the code passes; reads
  leave the state as it is, \<^verbatim>\<open>Create\<close> returns the new one. An \<open>ObjectKey\<close> is
  the pair of namespace and name.
\<close>

type_synonym ObjectKey = "string \<times> string"
type_synonym MatchingLabels = "(string \<times> string) list"

record 's Client =
  GetSecret :: "'s \<Rightarrow> ObjectKey \<Rightarrow> error + Secret"
  GetRelease :: "'s \<Rightarrow> ObjectKey \<Rightarrow> error + Release"
  GetCluster :: "'s \<Rightarrow> ObjectKey \<Rightarrow> error + Cluster"
  ListAzureConfig :: "'s \<Rightarrow> MatchingLabels \<Rightarrow> error + AzureConfig ObjectList"
  ListCluster :: "'s \<Rightarrow> MatchingLabels \<Rightarrow> error + Cluster ObjectList"
  ListAzureCluster :: "'s \<Rightarrow> MatchingLabels \<Rightarrow> error + AzureCluster ObjectList"
  ListMachinePool :: "'s \<Rightarrow> MatchingLabels \<Rightarrow> error + MachinePool ObjectList"
  ListAzureMachinePool :: "'s \<Rightarrow> MatchingLabels \<Rightarrow> error + AzureMachinePool ObjectList"
  Create :: "'s \<Rightarrow> obj \<Rightarrow> error option \<times> 's"

text \<open>
  What the migrator takes from outside the two source files: the IPv6 parser and the
  printers of package \<^verbatim>\<open>net\<close> that are not written out above, the embedded template
  files with \<^verbatim>\<open>template.ParseFS\<close> and \<^verbatim>\<open>Execute\<close> (a parsed template is a \<open>'t\<close>,
  the data a list of named values), and \<^verbatim>\<open>yaml.Unmarshal\<close> into the named target type.
\<close>

record 't Externals =
  parseIPv6 :: "string \<Rightarrow> IP option"
  ipv6String :: "IP \<Rightarrow> string"
  IPNet_String :: "IPNet \<Rightarrow> string"
  ParseFS :: "string \<Rightarrow> error + 't"
  Execute :: "'t \<Rightarrow> (string \<times> string) list \<Rightarrow> error + string"
  Unmarshal :: "string \<Rightarrow> string \<Rightarrow> error + Decoded"

text \<open>The label keys of the imported API packages.\<close>

definition ClusterLabelName :: string where
  "ClusterLabelName = ''cluster.x-k8s.io/cluster-name''"

definition ReleaseVersion :: string where
  "ReleaseVersion = ''release.giantswarm.io/version''"

definition EncryptionSecret :: string where
  "EncryptionSecret = ''EncryptionSecret''"

text \<open>
  The migrator: its cluster ID and the cache \<^verbatim>\<open>crs\<close> of source objects, a Go map from
  a string to an \<^verbatim>\<open>interface{}\<close>. Its client is passed beside it, with the client's state.
\<close>

record azureMigrator =
  clusterID :: string
  crs :: "string \<rightharpoonup> obj"

text \<open>A Go map read at a missing key gives the zero value, here the empty string.\<close>

definition lookupString :: "(string \<rightharpoonup> string) \<Rightarrow> string \<Rightarrow> string" where
  "lookupString m k = (case m k of None \<Rightarrow> [] | Some v \<Rightarrow> v)"

definition getVNETCIDR :: "'t Externals \<Rightarrow> AzureCluster \<Rightarrow> error + IPNet" where
  "getVNETCIDR ext cluster =
     (if length (Vnet_CIDRBlocks cluster) = 0
      then Inl (Mask (Errorf ''VNET CIDR not found for %q'' [Name cluster]))
      else (case ParseCIDR (parseIPv6 ext) (Vnet_CIDRBlocks cluster ! 0) of
              Inl err \<Rightarrow> Inl (Mask err)
            | Inr n \<Rightarrow> Inr n))"

definition TrimPrefix_v :: "string \<Rightarrow> string" where
  "TrimPrefix_v s = (case s of c # cs \<Rightarrow> if c = CHR ''v'' then cs else s | [] \<Rightarrow> s)"

fun componentsMap :: "(string \<times> string) list \<Rightarrow> (string \<rightharpoonup> string) \<Rightarrow> (string \<rightharpoonup> string)" where
  "componentsMap [] components = components"
| "componentsMap ((name, version) # cs) components = componentsMap cs (components(name \<mapsto> version))"

definition getReleaseComponents ::
  "'s Client \<Rightarrow> 's \<Rightarrow> string \<Rightarrow> error + (string \<rightharpoonup> string)" where
  "getReleaseComponents c s ver0 =
     (let ver = TrimPrefix_v ver0 in
      case GetRelease c s ([], ver) of
        Inl err \<Rightarrow> Inl (Mask err)
      | Inr r \<Rightarrow> Inr (componentsMap (Components r) Map.empty))"

section \<open>The read steps\<close>

text \<open>
  A read step returns its error and the migrator as the call leaves it: on an error
  the cache is the one it was given.
\<close>

definition readEncryptionSecret ::
  "'s Client \<Rightarrow> 's \<Rightarrow> azureMigrator \<Rightarrow> error option \<times> azureMigrator" where
  "readEncryptionSecret c s m =
     (let key = (''default'', clusterID m @ ''-encryption'') in
      case GetSecret c s key of
        Inl err \<Rightarrow> (Some (Mask err), m)
      | Inr obj \<Rightarrow> (None, m\<lparr>crs := (crs m)(EncryptionSecret \<mapsto> SecretObj obj)\<rparr>))"

definition readAzureConfig ::
  "'s Client \<Rightarrow> 's \<Rightarrow> azureMigrator \<Rightarrow> error option \<times> azureMigrator" where
  "readAzureConfig c s m =
     (let selector = [(ClusterLabelName, clusterID m)] in
      case ListAzureConfig c s selector of
        Inl err \<Rightarrow> (Some (Mask err), m)
      | Inr objList \<Rightarrow>
          if length (Items objList) = 0
          then (Some (Mask (Errorf ''AzureConfig not found for %q'' [clusterID m])), m)
          else if length (Items objList) > 1
          then (Some (Mask (Errorf ''more than one AzureConfig for cluster ID %q'' [clusterID m])), m)
          else (let obj = Items objList ! 0 in
                (None, m\<lparr>crs := (crs m)(Kind obj \<mapsto> AzureConfigObj obj)\<rparr>)))"

definition readCluster ::
  "'s Client \<Rightarrow> 's \<Rightarrow> azureMigrator \<Rightarrow> error option \<times> azureMigrator" where
  "readCluster c s m =
     (let selector = [(ClusterLabelName, clusterID m)] in
      case ListCluster c s selector of
        Inl err \<Rightarrow> (Some (Mask err), m)
      | Inr objList \<Rightarrow>
          if length (Items objList) = 0
          then (Some (Mask (Errorf ''Cluster not found for %q'' [clusterID m])), m)
          else if length (Items objList) > 1
          then (Some (Mask (Errorf ''more than one Cluster for cluster ID %q'' [clusterID m])), m)
          else (let obj = Items objList ! 0 in
                (None, m\<lparr>crs := (crs m)(Kind obj \<mapsto> ClusterObj obj)\<rparr>)))"

definition readAzureCluster ::
  "'s Client \<Rightarrow> 's \<Rightarrow> azureMigrator \<Rightarrow> error option \<times> azureMigrator" where
  "readAzureCluster c s m =
     (let selector = [(ClusterLabelName, clusterID m)] in
      case ListAzureCluster c s selector of
        Inl err \<Rightarrow> (Some (Mask err), m)
      | Inr objList \<Rightarrow>
          if length (Items objList) = 0
          then (Some (Mask (Errorf ''AzureCluster not found for %q'' [clusterID m])), m)
          else if length (Items objList) > 1
          then (Some (Mask (Errorf ''more than one AzureCluster for cluster ID %q'' [clusterID m])), m)
          else (let obj = Items objList ! 0 in
                (None, m\<lparr>crs := (crs m)(Kind obj \<mapsto> AzureClusterObj obj)\<rparr>)))"

definition readMachinePools ::
  "'s Client \<Rightarrow> 's \<Rightarrow> azureMigrator \<Rightarrow> error option \<times> azureMigrator" where
  "readMachinePools c s m =
     (let selector = [(ClusterLabelName, clusterID m)] in
      case ListMachinePool c s selector of
        Inl err \<Rightarrow> (Some (Mask err), m)
      | Inr objList \<Rightarrow> (None, m\<lparr>crs := (crs m)(Kind objList \<mapsto> MachinePoolListObj objList)\<rparr>))"

definition readAzureMachinePools ::
  "'s Client \<Rightarrow> 's \<Rightarrow> azureMigrator \<Rightarrow> error option \<times> azureMigrator" where
  "readAzureMachinePools c s m =
     (let selector = [(ClusterLabelName, clusterID m)] in
      case ListAzureMachinePool c s selector of
        Inl err \<Rightarrow> (Some (Mask err), m)
      | Inr objList \<Rightarrow>
          (None, m\<lparr>crs := (crs m)(Kind objList \<mapsto> AzureMachinePoolListObj objList)\<rparr>))"

section \<open>The write steps\<close>

text \<open>
  Each write step builds one object and passes it to \<^verbatim>\<open>Create\<close>. The object is a
  definition of its own (the lines of the step before the call); the call and the
  test of its error stand in every step, as in the source.
\<close>

definition encryptionConfigTmpl_head :: string where
  "encryptionConfigTmpl_head =
     ''\<newline>kind: EncryptionConfiguration\<newline>apiVersion: apiserver.config.k8s.io/v1\<newline>resources:\<newline>  - resources:\<newline>    - secrets\<newline>    providers:\<newline>    - aescbc:\<newline>        keys:\<newline>        - name: key1\<newline>          secret: ''"

definition encryptionConfigTmpl_tail :: string where
  "encryptionConfigTmpl_tail = ''\<newline>    - identity: {}''"

text \<open>Lines 46 to 70, for a non-nil \<^verbatim>\<open>origEncryptionSecret\<close>.\<close>

definition encryptionConfigSecret :: "azureMigrator \<Rightarrow> Secret \<Rightarrow> obj" where
  "encryptionConfigSecret m origEncryptionSecret =
     (let renderedConfig =
            encryptionConfigTmpl_head @ lookupString (Data origEncryptionSecret) ''encryption''
              @ encryptionConfigTmpl_tail
      in SecretObj \<lparr>Kind = [], Name = clusterID m @ ''-k8s-encryption-config'',
            Namespace = ''default'', Labels = Map.empty, DeletionTimestamp = None,
            SecretType = ''Opaque'', Data = Map.empty,
            StringData = [''encryption'' \<mapsto> renderedConfig]\<rparr>)"

text \<open>
  \<^verbatim>\<open>createEncryptionConfigSecret\<close>. Line 33 declares \<^verbatim>\<open>origEncryptionSecret\<close>, a
  nil pointer. Line 40, inside the block, declares a second variable of that name with
  \<^verbatim>\<open>:=\<close>; the block ends at line 44 and the outer variable is still nil when line 59
  reads its \<^verbatim>\<open>Data\<close>.
\<close>

definition createEncryptionConfigSecret ::
  "'s Client \<Rightarrow> azureMigrator \<Rightarrow> 's \<Rightarrow> error option outcome \<times> 's" where
  "createEncryptionConfigSecret c m s =
     (let origEncryptionSecret = (None :: Secret option) in
      case crs m EncryptionSecret of
        None \<Rightarrow> (Returned (Some (Mask (Errorf ''encryption secret not found'' []))), s)
      | Some obj \<Rightarrow>
          (case obj of
             SecretObj inner \<Rightarrow>
               (case origEncryptionSecret of
                  None \<Rightarrow> (Panicked ''invalid memory address or nil pointer dereference'', s)
                | Some sec \<Rightarrow>
                    (case Create c s (encryptionConfigSecret m sec) of
                       (err, s') \<Rightarrow>
                         if IsAlreadyExists err then (Returned None, s')
                         else (case err of
                                 Some e \<Rightarrow> (Returned (Some (Mask e)), s')
                               | None \<Rightarrow> (Returned None, s'))))
           | _ \<Rightarrow>
               (Returned (Some (Mask (Errorf ''can't convert obj (%T) to %T''
                                        [typeName obj, ''*v1.Secret'']))), s)))"

definition proxyConfig :: string where
  "proxyConfig =
     ''\<newline>apiVersion: kubeproxy.config.k8s.io/v1alpha1\<newline>clientConnection:\<newline>  kubeconfig: /etc/kubernetes/config/proxy-kubeconfig.yaml\<newline>kind: KubeProxyConfiguration\<newline>mode: iptables\<newline>metricsBindAddress: 0.0.0.0:10249''"

definition proxyConfigSecret :: "azureMigrator \<Rightarrow> obj" where
  "proxyConfigSecret m =
     SecretObj \<lparr>Kind = [], Name = clusterID m @ ''-proxy-config'',
       Namespace = ''default'', Labels = Map.empty, DeletionTimestamp = None,
       SecretType = ''Opaque'', Data = Map.empty,
       StringData = [''proxy'' \<mapsto> proxyConfig]\<rparr>"

definition createProxyConfigSecret ::
  "'s Client \<Rightarrow> azureMigrator \<Rightarrow> 's \<Rightarrow> error option \<times> 's" where
  "createProxyConfigSecret c m s =
     (case Create c s (proxyConfigSecret m) of
        (err, s') \<Rightarrow>
          if IsAlreadyExists err then (None, s')
          else (case err of
                  Some e \<Rightarrow> (Some (Mask e), s')
                | None \<Rightarrow> (None, s')))"

text \<open>
  Lines 127 to 166 of \<^verbatim>\<open>createKubeadmControlPlane\<close>, for the cached cluster. The
  map literal calls \<^verbatim>\<open>vnet.String()\<close> and then \<^verbatim>\<open>getMasterIPForVNet\<close>, which can
  panic.
\<close>

definition kubeadmControlPlane ::
  "'t Externals \<Rightarrow> 's Client \<Rightarrow> 's \<Rightarrow> azureMigrator \<Rightarrow> AzureCluster \<Rightarrow> (error + obj) outcome" where
  "kubeadmControlPlane ext c s m cluster =
     (case ParseFS ext ''templates/kubeadm_controlplane_azure.yaml.tmpl'' of
        Inl err \<Rightarrow> Returned (Inl (Mask err))
      | Inr tmpl \<Rightarrow>
     (case getInstallationBaseDomainFromAPIEndpoint (ControlPlaneEndpoint_Host cluster) of
        Inl err \<Rightarrow> Returned (Inl (Mask err))
      | Inr baseDomain \<Rightarrow>
     (case getVNETCIDR ext cluster of
        Inl err \<Rightarrow> Returned (Inl (Mask err))
      | Inr vnet \<Rightarrow>
     (case getReleaseComponents c s (lookupString (Labels cluster) ReleaseVersion) of
        Inl err \<Rightarrow> Returned (Inl (Mask err))
      | Inr releaseComponents \<Rightarrow>
     (case getMasterIPForVNet vnet of
        Panicked p \<Rightarrow> Panicked p
      | Returned masterIP \<Rightarrow>
     (let cfg = [(''ClusterID'', clusterID m),
                 (''ClusterCIDR'', IPNet_String ext vnet),
                 (''ClusterMasterIP'', IP_String (ipv6String ext) masterIP),
                 (''EtcdVersion'', lookupString releaseComponents ''etcd''),
                 (''K8sVersion'', lookupString releaseComponents ''kubernetes''),
                 (''InstallationBaseDomain'', baseDomain)]
      in case Execute ext tmpl cfg of
        Inl err \<Rightarrow> Returned (Inl (Mask err))
      | Inr buf \<Rightarrow>
     (case Unmarshal ext ''KubeadmControlPlane'' buf of
        Inl err \<Rightarrow> Returned (Inl (Mask err))
      | Inr kcp \<Rightarrow> Returned (Inr (KubeadmControlPlaneObj kcp)))))))))"

definition createKubeadmControlPlane ::
  "'t Externals \<Rightarrow> 's Client \<Rightarrow> azureMigrator \<Rightarrow> 's \<Rightarrow> error option outcome \<times> 's" where
  "createKubeadmControlPlane ext c m s =
     (case crs m ''AzureCluster'' of
        None \<Rightarrow> (Returned (Some (Mask (Errorf ''AzureCluster not found'' []))), s)
      | Some obj \<Rightarrow>
          (case obj of
             AzureClusterObj cluster \<Rightarrow>
               (case kubeadmControlPlane ext c s m cluster of
                  Panicked p \<Rightarrow> (Panicked p, s)
                | Returned (Inl err) \<Rightarrow> (Returned (Some err), s)
                | Returned (Inr kcp) \<Rightarrow>
                    (case Create c s kcp of
                       (err, s') \<Rightarrow>
                         if IsAlreadyExists err then (Returned None, s')
                         else (case err of
                                 Some e \<Rightarrow> (Returned (Some (Mask e)), s')
                               | None \<Rightarrow> (Returned None, s'))))
           | _ \<Rightarrow>
               (Returned (Some (Mask (Errorf ''can't cast obj (%T) to %T''
                                        [typeName obj, ''*v1alpha3.AzureCluster'']))), s)))"

text \<open>The four steps that render a template from the cluster ID.\<close>

definition masterAzureMachineTemplate :: "'t Externals \<Rightarrow> azureMigrator \<Rightarrow> error + obj" where
  "masterAzureMachineTemplate ext m =
     (case ParseFS ext ''templates/controlplane_azure_machine_template.yaml.tmpl'' of
        Inl err \<Rightarrow> Inl (Mask err)
      | Inr tmpl \<Rightarrow>
          (let cfg = [(''ClusterID'', clusterID m)] in
           case Execute ext tmpl cfg of
             Inl err \<Rightarrow> Inl (Mask err)
           | Inr buf \<Rightarrow>
               (case Unmarshal ext ''AzureMachineTemplate'' buf of
                  Inl err \<Rightarrow> Inl (Mask err)
                | Inr amt \<Rightarrow> Inr (AzureMachineTemplateObj amt))))"

definition createMasterAzureMachineTemplate ::
  "'t Externals \<Rightarrow> 's Client \<Rightarrow> azureMigrator \<Rightarrow> 's \<Rightarrow> error option \<times> 's" where
  "createMasterAzureMachineTemplate ext c m s =
     (case masterAzureMachineTemplate ext m of
        Inl err \<Rightarrow> (Some err, s)
      | Inr amt \<Rightarrow>
          (case Create c s amt of
             (err, s') \<Rightarrow>
               if IsAlreadyExists err then (None, s')
               else (case err of
                       Some e \<Rightarrow> (Some (Mask e), s')
                     | None \<Rightarrow> (None, s'))))"

definition workersKubeadmConfigTemplate :: "'t Externals \<Rightarrow> azureMigrator \<Rightarrow> error + obj" where
  "workersKubeadmConfigTemplate ext m =
     (case ParseFS ext ''templates/workers_kubeadm_config_template_azure.yaml.tmpl'' of
        Inl err \<Rightarrow> Inl (Mask err)
      | Inr tmpl \<Rightarrow>
          (let cfg = [(''ClusterID'', clusterID m)] in
           case Execute ext tmpl cfg of
             Inl err \<Rightarrow> Inl (Mask err)
           | Inr buf \<Rightarrow>
               (case Unmarshal ext ''KubeadmConfigTemplate'' buf of
                  Inl err \<Rightarrow> Inl (Mask err)
                | Inr kct \<Rightarrow> Inr (KubeadmConfigTemplateObj kct))))"

definition createWorkersKubeadmConfigTemplate ::
  "'t Externals \<Rightarrow> 's Client \<Rightarrow> azureMigrator \<Rightarrow> 's \<Rightarrow> error option \<times> 's" where
  "createWorkersKubeadmConfigTemplate ext c m s =
     (case workersKubeadmConfigTemplate ext m of
        Inl err \<Rightarrow> (Some err, s)
      | Inr kct \<Rightarrow>
          (case Create c s kct of
             (err, s') \<Rightarrow>
               if IsAlreadyExists err then (None, s')
               else (case err of
                       Some e \<Rightarrow> (Some (Mask e), s')
                     | None \<Rightarrow> (None, s'))))"

definition workersAzureMachineTemplate :: "'t Externals \<Rightarrow> azureMigrator \<Rightarrow> error + obj" where
  "workersAzureMachineTemplate ext m =
     (case ParseFS ext ''templates/workers_azure_machine_template.yaml.tmpl'' of
        Inl err \<Rightarrow> Inl (Mask err)
      | Inr tmpl \<Rightarrow>
          (let cfg = [(''ClusterID'', clusterID m)] in
           case Execute ext tmpl cfg of
             Inl err \<Rightarrow> Inl (Mask err)
           | Inr buf \<Rightarrow>
               (case Unmarshal ext ''AzureMachineTemplate'' buf of
                  Inl err \<Rightarrow> Inl (Mask err)
                | Inr amt \<Rightarrow> Inr (AzureMachineTemplateObj amt))))"

definition createWorkersAzureMachineTemplate ::
  "'t Externals \<Rightarrow> 's Client \<Rightarrow> azureMigrator \<Rightarrow> 's \<Rightarrow> error option \<times> 's" where
  "createWorkersAzureMachineTemplate ext c m s =
     (case workersAzureMachineTemplate ext m of
        Inl err \<Rightarrow> (Some err, s)
      | Inr amt \<Rightarrow>
          (case Create c s amt of
             (err, s') \<Rightarrow>
               if IsAlreadyExists err then (None, s')
               else (case err of
                       Some e \<Rightarrow> (Some (Mask e), s')
                     | None \<Rightarrow> (None, s'))))"

definition workersMachineDeployment :: "'t Externals \<Rightarrow> azureMigrator \<Rightarrow> error + obj" where
  "workersMachineDeployment ext m =
     (case ParseFS ext ''templates/workers_machine_deployment.yaml.tmpl'' of
        Inl err \<Rightarrow> Inl (Mask err)
      | Inr tmpl \<Rightarrow>
          (let cfg = [(''ClusterID'', clusterID m), (''K8sVersion'', ''v1.19.9'')] in
           case Execute ext tmpl cfg of
             Inl err \<Rightarrow> Inl (Mask err)
           | Inr buf \<Rightarrow>
               (case Unmarshal ext ''MachineDeployment'' buf of
                  Inl err \<Rightarrow> Inl (Mask err)
                | Inr md \<Rightarrow> Inr (MachineDeploymentObj md))))"

definition createWorkersMachineDeployment ::
  "'t Externals \<Rightarrow> 's Client \<Rightarrow> azureMigrator \<Rightarrow> 's \<Rightarrow> error option \<times> 's" where
  "createWorkersMachineDeployment ext c m s =
     (case workersMachineDeployment ext m of
        Inl err \<Rightarrow> (Some err, s)
      | Inr md \<Rightarrow>
          (case Create c s md of
             (err, s') \<Rightarrow>
               if IsAlreadyExists err then (None, s')
               else (case err of
                       Some e \<Rightarrow> (Some (Mask e), s')
                     | None \<Rightarrow> (None, s'))))"

section \<open>The two phases\<close>

text \<open>
  Modelled from the spec: the function of the migrator that calls the read steps and
  then the write steps is not in the two source files. The spec (4.4 and 7) gives the
  order of the steps, says that a step's error ends the sequence, and that an error is
  wrapped at each call boundary. A panic ends the program, so it ends the sequence too.
\<close>

datatype readStep =
    ReadEncryptionSecret
  | ReadAzureConfig
  | ReadCluster
  | ReadAzureCluster
  | ReadMachinePools
  | ReadAzureMachinePools

fun runReadStep ::
  "'s Client \<Rightarrow> 's \<Rightarrow> azureMigrator \<Rightarrow> readStep \<Rightarrow> error option \<times> azureMigrator" where
  "runReadStep c s m ReadEncryptionSecret = readEncryptionSecret c s m"
| "runReadStep c s m ReadAzureConfig = readAzureConfig c s m"
| "runReadStep c s m ReadCluster = readCluster c s m"
| "runReadStep c s m ReadAzureCluster = readAzureCluster c s m"
| "runReadStep c s m ReadMachinePools = readMachinePools c s m"
| "runReadStep c s m ReadAzureMachinePools = readAzureMachinePools c s m"

fun runReadSteps ::
  "'s Client \<Rightarrow> 's \<Rightarrow> azureMigrator \<Rightarrow> readStep list \<Rightarrow> error option \<times> azureMigrator" where
  "runReadSteps c s m [] = (None, m)"
| "runReadSteps c s m (step # steps) =
     (case runReadStep c s m step of
        (Some err, m') \<Rightarrow> (Some (Mask err), m')
      | (None, m') \<Rightarrow> runReadSteps c s m' steps)"

definition readPhase :: "readStep list" where
  "readPhase = [ReadEncryptionSecret, ReadAzureConfig, ReadCluster, ReadAzureCluster,
                ReadMachinePools, ReadAzureMachinePools]"

datatype writeStep =
    CreateEncryptionConfigSecret
  | CreateProxyConfigSecret
  | CreateKubeadmControlPlane
  | CreateMasterAzureMachineTemplate
  | CreateWorkersKubeadmConfigTemplate
  | CreateWorkersAzureMachineTemplate
  | CreateWorkersMachineDeployment

definition noPanic :: "error option \<times> 's \<Rightarrow> error option outcome \<times> 's" where
  "noPanic r = (Returned (fst r), snd r)"

fun runWriteStep ::
  "'t Externals \<Rightarrow> 's Client \<Rightarrow> azureMigrator \<Rightarrow> writeStep \<Rightarrow> 's \<Rightarrow> error option outcome \<times> 's" where
  "runWriteStep ext c m CreateEncryptionConfigSecret s = createEncryptionConfigSecret c m s"
| "runWriteStep ext c m CreateProxyConfigSecret s = noPanic (createProxyConfigSecret c m s)"
| "runWriteStep ext c m CreateKubeadmControlPlane s = createKubeadmControlPlane ext c m s"
| "runWriteStep ext c m CreateMasterAzureMachineTemplate s =
     noPanic (createMasterAzureMachineTemplate ext c m s)"
| "runWriteStep ext c m CreateWorkersKubeadmConfigTemplate s =
     noPanic (createWorkersKubeadmConfigTemplate ext c m s)"
| "runWriteStep ext c m CreateWorkersAzureMachineTemplate s =
     noPanic (createWorkersAzureMachineTemplate ext c m s)"
| "runWriteStep ext c m CreateWorkersMachineDeployment s =
     noPanic (createWorkersMachineDeployment ext c m s)"

fun runWriteSteps ::
  "'t Externals \<Rightarrow> 's Client \<Rightarrow> azureMigrator \<Rightarrow> writeStep list \<Rightarrow> 's \<Rightarrow> error option outcome \<times> 's" where
  "runWriteSteps ext c m [] s = (Returned None, s)"
| "runWriteSteps ext c m (step # steps) s =
     (case runWriteStep ext c m step s of
        (Panicked p, s') \<Rightarrow> (Panicked p, s')
      | (Returned (Some err), s') \<Rightarrow> (Returned (Some (Mask err)), s')
      | (Returned None, s') \<Rightarrow> runWriteSteps ext c m steps s')"

definition writePhase :: "writeStep list" where
  "writePhase = [CreateEncryptionConfigSecret, CreateProxyConfigSecret, CreateKubeadmControlPlane,
                 CreateMasterAzureMachineTemplate, CreateWorkersKubeadmConfigTemplate,
                 CreateWorkersAzureMachineTemplate, CreateWorkersMachineDeployment]"

section \<open>The cluster reconciler\<close>

text \<open>
  \<^verbatim>\<open>ctrl.Result\<close> with its \<^verbatim>\<open>time.Duration\<close>, an \<^verbatim>\<open>int64\<close> of nanoseconds. The
  reconciler's state is its loop counter and what it wrote to its logger. A handler
  takes the reconciler and the cluster and returns its result, its error and the
  reconciler.
\<close>

record Result =
  Requeue :: bool
  RequeueAfter :: "64 word"

definition Second :: "64 word" where
  "Second = 1000000000"

definition emptyResult :: Result where
  "emptyResult = \<lparr>Requeue = False, RequeueAfter = 0\<rparr>"

datatype logEntry = Debugf string | LogErrorf error string

record ClusterReconciler =
  loopSeq :: "64 word"
  Log :: "logEntry list"

definition Time_IsZero :: "int option \<Rightarrow> bool" where
  "Time_IsZero t = (case t of None \<Rightarrow> True | Some x \<Rightarrow> x = 0)"

type_synonym handler =
  "ClusterReconciler \<Rightarrow> Cluster \<Rightarrow> (Result \<times> error option) \<times> ClusterReconciler"

definition reconcile :: handler where
  "reconcile r cluster =
     ((emptyResult, None), r\<lparr>Log := Log r @ [Debugf ''calling reconcile'']\<rparr>)"

definition reconcileDelete :: handler where
  "reconcileDelete r cluster =
     ((emptyResult, None), r\<lparr>Log := Log r @ [Debugf ''calling reconcileDelete'']\<rparr>)"

text \<open>
  The body of \<^verbatim>\<open>Reconcile\<close>, lines 50 to 83, with the two handlers it calls as
  arguments; \<open>Reconcile\<close> is that body with the repository's two handlers.
\<close>

definition Reconcile_body ::
  "handler \<Rightarrow> handler \<Rightarrow> 's Client \<Rightarrow> 's \<Rightarrow> ClusterReconciler \<Rightarrow> ObjectKey
     \<Rightarrow> (Result \<times> error option) \<times> ClusterReconciler" where
  "Reconcile_body onReconcile onDelete c s r0 req =
     (let r = r0\<lparr>loopSeq := loopSeq r0 + 1\<rparr> in
      case GetCluster c s req of
        Inl err \<Rightarrow> ((emptyResult, Some (Mask err)), r)
      | Inr cluster \<Rightarrow>
          if \<not> Time_IsZero (DeletionTimestamp cluster)
          then (case onDelete r cluster of
                  ((res, Some err), r') \<Rightarrow>
                    (let requeueAfter = 30 * Second in
                     ((\<lparr>Requeue = False, RequeueAfter = requeueAfter\<rparr>, None),
                      r'\<lparr>Log := Log r' @ [LogErrorf err ''failed to reconcile, requeuing after %#q'']\<rparr>))
                | ((res, None), r') \<Rightarrow> ((res, None), r'))
          else (case onReconcile r cluster of
                  ((res, Some err), r') \<Rightarrow>
                    (let requeueAfter = 30 * Second in
                     ((\<lparr>Requeue = False, RequeueAfter = requeueAfter\<rparr>, None),
                      r'\<lparr>Log := Log r' @ [LogErrorf err ''failed to reconcile, requeuing after %#q'']\<rparr>))
                | ((res, None), r') \<Rightarrow> ((res, None), r')))"

definition Reconcile ::
  "'s Client \<Rightarrow> 's \<Rightarrow> ClusterReconciler \<Rightarrow> ObjectKey \<Rightarrow> (Result \<times> error option) \<times> ClusterReconciler" where
  "Reconcile c s r req = Reconcile_body reconcile reconcileDelete c s r req"

section \<open>An in-memory client\<close>

text \<open>
  A client over a list of stored objects, after the accessor contract of the spec
  (4.1): \<^verbatim>\<open>Get\<close> finds an object of the asked type by namespace and name or fails with
  NotFound, \<^verbatim>\<open>List\<close> returns the objects of the asked type that carry the labels,
  \<^verbatim>\<open>Create\<close> fails with AlreadyExists when an object of that type, namespace and
  name is stored and stores the object otherwise. It stands for the API server where a
  statement is evaluated at a concrete input.
\<close>

fun objMeta :: "obj \<Rightarrow> string \<times> string \<times> string" where
  "objMeta (SecretObj x) = (''Secret'', Namespace x, Name x)"
| "objMeta (AzureConfigObj x) = (''AzureConfig'', Namespace x, Name x)"
| "objMeta (ClusterObj x) = (''Cluster'', Namespace x, Name x)"
| "objMeta (AzureClusterObj x) = (''AzureCluster'', Namespace x, Name x)"
| "objMeta (MachinePoolListObj x) = (''MachinePoolList'', [], [])"
| "objMeta (AzureMachinePoolListObj x) = (''AzureMachinePoolList'', [], [])"
| "objMeta (ReleaseObj x) = (''Release'', Namespace x, Name x)"
| "objMeta (KubeadmControlPlaneObj x) = (''KubeadmControlPlane'', Namespace x, Name x)"
| "objMeta (AzureMachineTemplateObj x) = (''AzureMachineTemplate'', Namespace x, Name x)"
| "objMeta (KubeadmConfigTemplateObj x) = (''KubeadmConfigTemplate'', Namespace x, Name x)"
| "objMeta (MachineDeploymentObj x) = (''MachineDeployment'', Namespace x, Name x)"

definition hasLabels :: "MatchingLabels \<Rightarrow> (string \<rightharpoonup> string) \<Rightarrow> bool" where
  "hasLabels sel labels = list_all (\<lambda>(k, v). labels k = Some v) sel"

definition getFrom :: "'a list \<Rightarrow> error + 'a" where
  "getFrom xs = (case xs of [] \<Rightarrow> Inl (StatusError StatusReasonNotFound) | x # _ \<Rightarrow> Inr x)"

definition memCreate :: "obj list \<Rightarrow> obj \<Rightarrow> error option \<times> obj list" where
  "memCreate objs x =
     (if objMeta x \<in> set (map objMeta objs)
      then (Some (StatusError StatusReasonAlreadyExists), objs)
      else (None, objs @ [x]))"

definition memClient :: "(obj list) Client" where
  "memClient =
     \<lparr>GetSecret = (\<lambda>objs key. getFrom [x. SecretObj x \<leftarrow> objs, (Namespace x, Name x) = key]),
      GetRelease = (\<lambda>objs key. getFrom [x. ReleaseObj x \<leftarrow> objs, (Namespace x, Name x) = key]),
      GetCluster = (\<lambda>objs key. getFrom [x. ClusterObj x \<leftarrow> objs, (Namespace x, Name x) = key]),
      ListAzureConfig = (\<lambda>objs sel.
        Inr \<lparr>Kind = [], Items = [x. AzureConfigObj x \<leftarrow> objs, hasLabels sel (Labels x)]\<rparr>),
      ListCluster = (\<lambda>objs sel.
        Inr \<lparr>Kind = [], Items = [x. ClusterObj x \<leftarrow> objs, hasLabels sel (Labels x)]\<rparr>),
      ListAzureCluster = (\<lambda>objs sel.
        Inr \<lparr>Kind = [], Items = [x. AzureClusterObj x \<leftarrow> objs, hasLabels sel (Labels x)]\<rparr>),
      ListMachinePool = (\<lambda>objs sel. Inr \<lparr>Kind = [], Items = []\<rparr>),
      ListAzureMachinePool = (\<lambda>objs sel. Inr \<lparr>Kind = [], Items = []\<rparr>),
      Create = memCreate\<rparr>"

section \<open>Values for evaluation\<close>

text \<open>
  Externals with no IPv6 parser and with templates that render to their own name
  followed by the values of the data; objects of the cluster \<^verbatim>\<open>abc123\<close>; a migrator
  with an empty cache and a reconciler that has not run yet; a handler that fails and
  a client whose \<^verbatim>\<open>Create\<close> always fails with a given error.
\<close>

definition stubExternals :: "string Externals" where
  "stubExternals =
     \<lparr>parseIPv6 = (\<lambda>s. None),
      ipv6String = (\<lambda>ip. ''?''),
      IPNet_String = (\<lambda>n. ''?''),
      ParseFS = (\<lambda>name. Inr name),
      Execute = (\<lambda>tmpl cfg. Inr (tmpl @ concat (map (\<lambda>(k, v). '' '' @ k @ ''='' @ v) cfg))),
      Unmarshal = (\<lambda>ty buf. Inr \<lparr>Kind = ty, Name = buf, Namespace = ''default'',
                     Labels = Map.empty, DeletionTimestamp = None, Spec = buf\<rparr>)\<rparr>"

definition azureClusterWith :: "string \<Rightarrow> string \<Rightarrow> string \<Rightarrow> AzureCluster" where
  "azureClusterWith kind host cidr =
     \<lparr>Kind = kind, Name = ''abc123'', Namespace = ''default'',
      Labels = [ClusterLabelName \<mapsto> ''abc123'', ReleaseVersion \<mapsto> ''v14.1.0''],
      DeletionTimestamp = None,
      ControlPlaneEndpoint_Host = host, Vnet_CIDRBlocks = [cidr]\<rparr>"

definition objectWith :: "string \<Rightarrow> string \<Rightarrow> int option \<Rightarrow> Object" where
  "objectWith kind name deleted =
     \<lparr>Kind = kind, Name = name, Namespace = ''default'',
      Labels = [ClusterLabelName \<mapsto> ''abc123''], DeletionTimestamp = deleted\<rparr>"

definition secretWith :: "string \<Rightarrow> string \<Rightarrow> Secret" where
  "secretWith name key =
     \<lparr>Kind = [], Name = name, Namespace = ''default'', Labels = Map.empty,
      DeletionTimestamp = None, SecretType = ''Opaque'',
      Data = [''encryption'' \<mapsto> key], StringData = Map.empty\<rparr>"

definition newMigrator :: "string \<Rightarrow> azureMigrator" where
  "newMigrator cid = \<lparr>clusterID = cid, crs = Map.empty\<rparr>"

definition releaseWith :: "string \<Rightarrow> (string \<times> string) list \<Rightarrow> Release" where
  "releaseWith name components =
     \<lparr>Kind = ''Release'', Name = name, Namespace = [], Labels = Map.empty,
      DeletionTimestamp = None, Components = components\<rparr>"

text \<open>
  The source objects of the cluster as a store holds them, with the \<^verbatim>\<open>Kind\<close> field
  set, and as a typed client decodes them, with the \<^verbatim>\<open>Kind\<close> field empty; and the
  in-memory client with list kinds set.
\<close>

definition kindedStore :: "obj list" where
  "kindedStore =
     [SecretObj (secretWith ''abc123-encryption'' ''c2VjcmV0''),
      AzureConfigObj (objectWith ''AzureConfig'' ''abc123'' None),
      ClusterObj (objectWith ''Cluster'' ''abc123'' None),
      AzureClusterObj (azureClusterWith ''AzureCluster'' ''api.abc123.k8s.example.installation.com''
                         ''10.0.0.0/16''),
      ReleaseObj (releaseWith ''14.1.0'' [(''etcd'', ''3.4.14''), (''kubernetes'', ''1.19.9'')])]"

definition unkindedStore :: "obj list" where
  "unkindedStore =
     [SecretObj (secretWith ''abc123-encryption'' ''c2VjcmV0''),
      AzureConfigObj (objectWith [] ''abc123'' None),
      ClusterObj (objectWith [] ''abc123'' None),
      AzureClusterObj (azureClusterWith [] ''api.abc123.k8s.example.installation.com''
                         ''10.0.0.0/16''),
      ReleaseObj (releaseWith ''14.1.0'' [(''etcd'', ''3.4.14''), (''kubernetes'', ''1.19.9'')])]"

definition kindedClient :: "(obj list) Client" where
  "kindedClient =
     memClient\<lparr>ListMachinePool := (\<lambda>objs sel. Inr \<lparr>Kind = ''MachinePoolList'', Items = []\<rparr>),
               ListAzureMachinePool :=
                 (\<lambda>objs sel. Inr \<lparr>Kind = ''AzureMachinePoolList'', Items = []\<rparr>)\<rparr>"

definition cachedMigrator :: azureMigrator where
  "cachedMigrator =
     \<lparr>clusterID = ''abc123'',
      crs = [EncryptionSecret \<mapsto> SecretObj (secretWith ''abc123-encryption'' ''c2VjcmV0''),
             ''AzureCluster'' \<mapsto> AzureClusterObj (azureClusterWith ''AzureCluster''
                 ''api.abc123.k8s.example.installation.com'' ''10.0.0.0/16'')]\<rparr>"

definition newReconciler :: ClusterReconciler where
  "newReconciler = \<lparr>loopSeq = 0, Log = []\<rparr>"

definition failingHandler :: handler where
  "failingHandler r cluster = ((emptyResult, Some (Errorf ''handler failed'' [])), r)"

definition refusingClient :: "error \<Rightarrow> (obj list) Client" where
  "refusingClient e = memClient\<lparr>Create := (\<lambda>objs x. (Some e, objs))\<rparr>"

section \<open>Evaluation rules\<close>

lemmas parseIPv4_fields_numeral [simp] =
  parseIPv4_fields.simps(2) [of "pred_numeral k", folded numeral_eq_Suc] for k

lemmas CIDRMask_bytes_numeral [simp] =
  CIDRMask_bytes.simps(2) [of "pred_numeral k", folded numeral_eq_Suc] for k

section \<open>The base domain of an endpoint host\<close>

lemma afterK8s_first:
  "''k8s'' \<notin> set pre \<Longrightarrow> afterK8s (pre @ ''k8s'' # post) = Some (Join_dot post)"
  by (induction pre) auto

lemma afterK8s_none: "''k8s'' \<notin> set ls \<Longrightarrow> afterK8s ls = None"
  by (induction ls) auto

lemma Split_dot_not_Nil: "Split_dot s \<noteq> []"
  by (induction s) (auto split: list.splits)

lemma Join_dot_Cons: "ls \<noteq> [] \<Longrightarrow> Join_dot (l # ls) = l @ ''.'' @ Join_dot ls"
  by (cases ls) auto

lemma Join_Split_dot: "Join_dot (Split_dot s) = s"
proof (induction s)
  case Nil
  show ?case by simp
next
  case (Cons c cs)
  show ?case
  proof (cases "c = CHR ''.''")
    case True
    with Cons show ?thesis by (simp add: Join_dot_Cons Split_dot_not_Nil)
  next
    case False
    obtain l ls where sp: "Split_dot cs = l # ls"
      using Split_dot_not_Nil [of cs] by (cases "Split_dot cs") auto
    from Cons sp have "Join_dot (l # ls) = cs" by simp
    then have "Join_dot ((c # l) # ls) = c # cs" by (cases ls) auto
    with False sp show ?thesis by simp
  qed
qed

lemma Split_dot_labels: "l \<in> set (Split_dot s) \<Longrightarrow> CHR ''.'' \<notin> set l"
proof (induction s arbitrary: l)
  case Nil
  then show ?case by simp
next
  case (Cons c cs)
  then show ?case
    by (cases "Split_dot cs") (auto split: if_splits)
qed

text \<open>
  C5. The labels of a host are its parts between dots: joined again they give the
  host, and none holds a dot (\<open>Join_Split_dot\<close>, \<open>Split_dot_labels\<close>). When a
  label is \<^verbatim>\<open>"k8s"\<close>, \<^verbatim>\<open>getInstallationBaseDomainFromAPIEndpoint\<close> returns the
  labels after the first such label, joined by dots, and no error; when no label is
  \<^verbatim>\<open>"k8s"\<close> it returns its error. The host
  \<^verbatim>\<open>api.abc123.k8s.example.installation.com\<close> gives \<^verbatim>\<open>example.installation.com\<close>.
\<close>

theorem base_domain_after_k8s_label:
  "(Split_dot host = pre @ ''k8s'' # post \<and> ''k8s'' \<notin> set pre \<longrightarrow>
      getInstallationBaseDomainFromAPIEndpoint host = Inr (Join_dot post)) \<and>
   (''k8s'' \<notin> set (Split_dot host) \<longrightarrow>
      getInstallationBaseDomainFromAPIEndpoint host =
        Inl (Mask (Errorf ''can't find domain label 'k8s' from ControlPlaneEndpoint.Host'' [])))"
  by (simp add: getInstallationBaseDomainFromAPIEndpoint_def afterK8s_first afterK8s_none)

theorem base_domain_after_k8s_label_witness:
  "Split_dot ''api.abc123.k8s.example.installation.com'' =
     [''api'', ''abc123''] @ ''k8s'' # [''example'', ''installation'', ''com''] \<and>
   ''k8s'' \<notin> set [''api'', ''abc123''] \<and>
   getInstallationBaseDomainFromAPIEndpoint ''api.abc123.k8s.example.installation.com'' =
     Inr ''example.installation.com'' \<and>
   ''k8s'' \<notin> set (Split_dot ''api.abc123.example.com'') \<and>
   getInstallationBaseDomainFromAPIEndpoint ''api.abc123.example.com'' =
     Inl (Mask (Errorf ''can't find domain label 'k8s' from ControlPlaneEndpoint.Host'' []))"
  using base_domain_after_k8s_label [of "''api.abc123.k8s.example.installation.com''"
      "[''api'', ''abc123'']" "[''example'', ''installation'', ''com'']"]
    base_domain_after_k8s_label [of "''api.abc123.example.com''"]
  by simp

section \<open>The master IP of a network\<close>

lemma To4_length: "To4 ip = Some p \<Longrightarrow> length p = 4"
  by (auto simp: To4_def IPv4len_def IPv6len_def split: if_splits)

lemma To4_IPv4: "To4 (IPv4 a b c d) = Some [a, b, c, d]"
  by (simp add: To4_def IPv4_def v4InV6Prefix_def IPv4len_def IPv6len_def isZeros_def)

lemma length_IPv4: "length (IPv4 a b c d) = 16"
  by (simp add: IPv4_def v4InV6Prefix_def)

lemma IP_String_IPv4:
  "IP_String f (IPv4 a b c d) = ubtoa a @ ''.'' @ ubtoa b @ ''.'' @ ubtoa c @ ''.'' @ ubtoa d"
  by (simp add: IP_String_def To4_IPv4 length_IPv4)

lemma unat_plus_4: "unat (d + 4 :: byte) = (unat d + 4) mod 256"
  by (simp add: unat_word_ariths)

text \<open>
  C10. For an IPv4 network whose fourth octet is above 251, \<^verbatim>\<open>getMasterIPForVNet\<close>
  returns and does not panic; the fourth octet of the address it returns is the sum
  modulo 256, that is 256 less than the network's octet plus 4, a value below 4. A
  network address ending in .252 gives a master IP ending in .0.
\<close>

theorem getMasterIPForVNet_wraps_above_251:
  assumes "To4 (IP vnet) = Some ip" and "251 < unat (ip ! 3)"
  shows "getMasterIPForVNet vnet = Returned (IPv4 (ip ! 0) (ip ! 1) (ip ! 2) (ip ! 3 + 4)) \<and>
         unat (ip ! 3 + 4) = unat (ip ! 3) + 4 - 256 \<and>
         unat (ip ! 3 + 4) < 4"
proof -
  have "unat (ip ! 3) < 2 ^ LENGTH(8)" by (rule unsigned_less)
  then have b: "unat (ip ! 3) < 256" by simp
  from assms(2) b have "(unat (ip ! 3) + 4) mod 256 = unat (ip ! 3) + 4 - 256"
    by (simp add: mod_if)
  with assms b show ?thesis
    by (simp add: getMasterIPForVNet_def unat_plus_4)
qed

theorem getMasterIPForVNet_wraps_above_251_witness:
  "To4 (IP \<lparr>IP = [10, 0, 3, 252], IPMask = [255, 255, 255, 252]\<rparr>) = Some [10, 0, 3, 252] \<and>
   251 < unat ([10, 0, 3, 252 :: byte] ! 3) \<and>
   getMasterIPForVNet \<lparr>IP = [10, 0, 3, 252], IPMask = [255, 255, 255, 252]\<rparr> =
     Returned (IPv4 10 0 3 0) \<and>
   IP_String (\<lambda>ip. []) (IPv4 10 0 3 0) = ''10.0.3.0''"
proof -
  have t: "To4 (IP \<lparr>IP = [10, 0, 3, 252], IPMask = [255, 255, 255, 252]\<rparr>) = Some [10, 0, 3, 252]"
    by (simp add: To4_def IPv4len_def)
  have u: "251 < unat ([10, 0, 3, 252 :: byte] ! 3)" by simp
  have s: "IP_String (\<lambda>ip. []) (IPv4 10 0 3 0) = ''10.0.3.0''"
    by (simp add: IP_String_IPv4 ubtoa_def digit_def)
  have z: "(256 :: byte) = 0" by simp
  from getMasterIPForVNet_wraps_above_251 [OF t u] t u s show ?thesis by (simp add: z)
qed

lemma length_CIDRMask_bytes: "length (CIDRMask_bytes l n) = l"
  by (induction l arbitrary: n) auto

lemma parseIPv4_is_IPv4:
  assumes "parseIPv4 addr = Some p"
  shows "\<exists>a b c d. p = IPv4 a b c d"
proof (cases "parseIPv4_fields 4 True addr")
  case None
  with assms show ?thesis by (simp add: parseIPv4_def del: parseIPv4_fields_numeral)
next
  case (Some r)
  obtain q rest where "r = (q, rest)" by (cases r) auto
  with Some assms have "p = IPv4 (q ! 0) (q ! 1) (q ! 2) (q ! 3)"
    by (simp add: parseIPv4_def del: parseIPv4_fields_numeral split: if_splits)
  then show ?thesis by blast
qed

lemma IP_Mask_IPv4:
  "length m = 4 \<Longrightarrow> IP_Mask (IPv4 a b c d) m = Some (map (\<lambda>(x, y). x AND y) (zip [a, b, c, d] m))"
  by (simp add: IP_Mask_def IPv4_def v4InV6Prefix_def IPv4len_def IPv6len_def)

lemma ParseCIDR_IPv4_length:
  assumes "ParseCIDR p6 s = Inr vnet" and "cutAt CHR ''/'' s = Some (addr, bits)"
    and "parseIPv4 addr = Some p"
  shows "length (IP vnet) = 4"
proof -
  from assms(3) obtain a b c d where p: "p = IPv4 a b c d"
    using parseIPv4_is_IPv4 by blast
  obtain n i ok where d: "dtoi bits = (n, i, ok)" by (cases "dtoi bits") auto
  have m: "IP_Mask (IPv4 a b c d) (CIDRMask n 4) =
      Some (map (\<lambda>(x, y). x AND y) (zip [a, b, c, d] (CIDRMask n 4)))"
    by (rule IP_Mask_IPv4) (simp add: CIDRMask_def length_CIDRMask_bytes)
  from assms(1) assms(2) assms(3) p d m
  have "IP vnet = map (\<lambda>(x, y). x AND y) (zip [a, b, c, d] (CIDRMask n 4))"
    by (auto simp: ParseCIDR_def IPv4len_def Let_def split: if_splits)
  then show ?thesis by (simp add: CIDRMask_def length_CIDRMask_bytes)
qed

lemma getMasterIPForVNet_v4:
  "length (IP vnet) = 4 \<Longrightarrow>
   getMasterIPForVNet vnet = Returned (IPv4 (IP vnet ! 0) (IP vnet ! 1) (IP vnet ! 2) (IP vnet ! 3 + 4))"
  by (simp add: getMasterIPForVNet_def To4_def IPv4len_def)

lemma getVNETCIDR_first_block:
  "getVNETCIDR ext cluster = Inr vnet \<Longrightarrow> Vnet_CIDRBlocks cluster = cidr # blocks \<Longrightarrow>
   ParseCIDR (parseIPv6 ext) cidr = Inr vnet"
  by (auto simp: getVNETCIDR_def split: sum.splits)

text \<open>
  C4, as amended. A CIDR block whose address part is dotted-decimal IPv4 text and that
  \<^verbatim>\<open>getVNETCIDR\<close> accepts gives a four-byte network address, so
  \<^verbatim>\<open>getMasterIPForVNet\<close> returns: the first three octets are the network's, the
  fourth is the network's fourth plus 4 modulo 256, which is the plain sum when that
  octet is at most 251. The result is a function of the block alone. The block
  \<^verbatim>\<open>10.0.0.0/16\<close> gives \<^verbatim>\<open>10.0.0.4\<close>.
\<close>

theorem master_ip_fourth_octet_plus_4_mod_256:
  assumes "Vnet_CIDRBlocks cluster = cidr # blocks"
    and "cutAt CHR ''/'' cidr = Some (addr, bits)"
    and "parseIPv4 addr = Some p"
    and "getVNETCIDR ext cluster = Inr vnet"
  shows "length (IP vnet) = 4 \<and>
         getMasterIPForVNet vnet =
           Returned (IPv4 (IP vnet ! 0) (IP vnet ! 1) (IP vnet ! 2) (IP vnet ! 3 + 4)) \<and>
         unat (IP vnet ! 3 + 4) = (unat (IP vnet ! 3) + 4) mod 256 \<and>
         (unat (IP vnet ! 3) \<le> 251 \<longrightarrow> unat (IP vnet ! 3 + 4) = unat (IP vnet ! 3) + 4)"
proof -
  from assms(4) assms(1) have "ParseCIDR (parseIPv6 ext) cidr = Inr vnet"
    by (rule getVNETCIDR_first_block)
  then have l: "length (IP vnet) = 4"
    using assms(2) assms(3) by (rule ParseCIDR_IPv4_length)
  have "unat (IP vnet ! 3 + 4) = (unat (IP vnet ! 3) + 4) mod 256"
    by (simp add: unat_word_ariths)
  with l show ?thesis by (simp add: getMasterIPForVNet_v4)
qed

lemma ParseCIDR_10_0_0_0_16:
  "ParseCIDR p6 ''10.0.0.0/16'' = Inr \<lparr>IP = [10, 0, 0, 0], IPMask = [255, 255, 0, 0]\<rparr>"
  by (simp add: ParseCIDR_def parseIPv4_def dtoi_def isDigit_def big_def IPv4_def v4InV6Prefix_def
      IPv4len_def IPv6len_def CIDRMask_def IP_Mask_def allFF_def)

lemma ParseCIDR_10_0_3_252_30:
  "ParseCIDR p6 ''10.0.3.252/30'' = Inr \<lparr>IP = [10, 0, 3, 252], IPMask = [255, 255, 255, 252]\<rparr>"
  by (simp add: ParseCIDR_def parseIPv4_def dtoi_def isDigit_def big_def IPv4_def v4InV6Prefix_def
      IPv4len_def IPv6len_def CIDRMask_def IP_Mask_def allFF_def)

lemma parseIPv4_10_0_0_0: "parseIPv4 ''10.0.0.0'' = Some (IPv4 10 0 0 0)"
  by (simp add: parseIPv4_def dtoi_def isDigit_def big_def)

theorem master_ip_fourth_octet_plus_4_mod_256_witness:
  "Vnet_CIDRBlocks (azureClusterWith ''AzureCluster'' ''api.abc123.k8s.example.installation.com'' ''10.0.0.0/16'')
     = ''10.0.0.0/16'' # [] \<and>
   cutAt CHR ''/'' ''10.0.0.0/16'' = Some (''10.0.0.0'', ''16'') \<and>
   parseIPv4 ''10.0.0.0'' = Some (IPv4 10 0 0 0) \<and>
   getVNETCIDR stubExternals
       (azureClusterWith ''AzureCluster'' ''api.abc123.k8s.example.installation.com'' ''10.0.0.0/16'')
     = Inr \<lparr>IP = [10, 0, 0, 0], IPMask = [255, 255, 0, 0]\<rparr> \<and>
   getMasterIPForVNet \<lparr>IP = [10, 0, 0, 0], IPMask = [255, 255, 0, 0]\<rparr> = Returned (IPv4 10 0 0 4) \<and>
   IP_String (ipv6String stubExternals) (IPv4 10 0 0 4) = ''10.0.0.4''"
proof -
  let ?cl = "azureClusterWith ''AzureCluster'' ''api.abc123.k8s.example.installation.com'' ''10.0.0.0/16''"
  have b: "Vnet_CIDRBlocks ?cl = ''10.0.0.0/16'' # []" by (simp add: azureClusterWith_def)
  have c: "cutAt CHR ''/'' ''10.0.0.0/16'' = Some (''10.0.0.0'', ''16'')" by simp
  have g: "getVNETCIDR stubExternals ?cl = Inr \<lparr>IP = [10, 0, 0, 0], IPMask = [255, 255, 0, 0]\<rparr>"
    by (simp add: getVNETCIDR_def azureClusterWith_def ParseCIDR_10_0_0_0_16)
  have s: "IP_String (ipv6String stubExternals) (IPv4 10 0 0 4) = ''10.0.0.4''"
    by (simp add: IP_String_IPv4 ubtoa_def digit_def)
  from master_ip_fourth_octet_plus_4_mod_256 [OF b c parseIPv4_10_0_0_0 g] b c g s
  show ?thesis by (simp add: parseIPv4_10_0_0_0)
qed

text \<open>
  C4 as stated fails at the block \<^verbatim>\<open>10.0.3.252/30\<close>: the network address is
  10.0.3.252 and the master IP is 10.0.3.0, whose fourth octet is not 252 + 4.
\<close>

theorem master_ip_plus_4_counterexample:
  "getVNETCIDR stubExternals
       (azureClusterWith ''AzureCluster'' ''api.abc123.k8s.example.installation.com'' ''10.0.3.252/30'')
     = Inr \<lparr>IP = [10, 0, 3, 252], IPMask = [255, 255, 255, 252]\<rparr> \<and>
   getMasterIPForVNet \<lparr>IP = [10, 0, 3, 252], IPMask = [255, 255, 255, 252]\<rparr> = Returned (IPv4 10 0 3 0) \<and>
   To4 (IPv4 10 0 3 0) = Some [10, 0, 3, 0] \<and>
   unat (0 :: byte) \<noteq> unat (252 :: byte) + 4"
proof -
  have z: "(256 :: byte) = 0" by simp
  have g: "getMasterIPForVNet \<lparr>IP = [10, 0, 3, 252], IPMask = [255, 255, 255, 252]\<rparr> =
      Returned (IPv4 10 0 3 0)"
    by (simp add: getMasterIPForVNet_v4 z)
  show ?thesis
    by (simp add: getVNETCIDR_def azureClusterWith_def ParseCIDR_10_0_3_252_30 g To4_IPv4)
qed

section \<open>The reconciler\<close>

lemma getFrom_Nil: "getFrom [] = Inl (StatusError StatusReasonNotFound)"
  by (simp add: getFrom_def)

lemma Reconcile_stub_handlers:
  "GetCluster c s req = Inr cluster \<Longrightarrow> fst (Reconcile c s r req) = (emptyResult, None)"
  by (simp add: Reconcile_def Reconcile_body_def reconcile_def reconcileDelete_def Let_def)

text \<open>
  C3, as amended. When \<^verbatim>\<open>Get\<close> fails, and so when the Cluster is absent from the
  store, \<^verbatim>\<open>Reconcile\<close> calls no handler and returns the empty result, which asks
  for no requeue, together with the error of \<^verbatim>\<open>Get\<close> wrapped by
  \<^verbatim>\<open>microerror.Mask\<close>; only the loop counter has moved.
\<close>

theorem Reconcile_returns_get_error:
  assumes "GetCluster c s req = Inl err"
  shows "Reconcile c s r req = ((emptyResult, Some (Mask err)), r\<lparr>loopSeq := loopSeq r + 1\<rparr>)"
  using assms by (simp add: Reconcile_def Reconcile_body_def)

theorem Reconcile_returns_get_error_witness:
  "GetCluster memClient [] (''default'', ''abc123'') = Inl (StatusError StatusReasonNotFound) \<and>
   Reconcile memClient [] newReconciler (''default'', ''abc123'') =
     ((emptyResult, Some (Mask (StatusError StatusReasonNotFound))),
      newReconciler\<lparr>loopSeq := loopSeq newReconciler + 1\<rparr>)"
proof -
  have g: "GetCluster memClient [] (''default'', ''abc123'') = Inl (StatusError StatusReasonNotFound)"
    by (simp add: memClient_def getFrom_Nil)
  from Reconcile_returns_get_error [OF g] g show ?thesis by simp
qed

text \<open>
  C3 as stated fails for a Cluster that is absent from the store: the call returns
  the NotFound error, not a nil error.
\<close>

theorem Reconcile_absent_cluster_counterexample:
  "GetCluster memClient [] (''default'', ''abc123'') = Inl (StatusError StatusReasonNotFound) \<and>
   snd (fst (Reconcile memClient [] newReconciler (''default'', ''abc123''))) =
     Some (Mask (StatusError StatusReasonNotFound)) \<and>
   snd (fst (Reconcile memClient [] newReconciler (''default'', ''abc123''))) \<noteq> None"
  by (simp add: Reconcile_def Reconcile_body_def memClient_def getFrom_Nil)

text \<open>
  C8. When the Cluster is fetched and the handler chosen by its deletion timestamp
  returns an error, the body of \<^verbatim>\<open>Reconcile\<close> returns a nil error and a result whose
  \<^verbatim>\<open>RequeueAfter\<close> is 30 seconds (30000000000 nanoseconds) and whose \<^verbatim>\<open>Requeue\<close>
  flag is unset, and logs the error.
\<close>

theorem Reconcile_handler_error_requeues_after_30s:
  assumes "GetCluster c s req = Inr cluster"
    and "(if Time_IsZero (DeletionTimestamp cluster) then onReconcile else onDelete)
           (r\<lparr>loopSeq := loopSeq r + 1\<rparr>) cluster = ((res, Some err), r')"
  shows "Reconcile_body onReconcile onDelete c s r req =
           ((\<lparr>Requeue = False, RequeueAfter = 30 * Second\<rparr>, None),
            r'\<lparr>Log := Log r' @ [LogErrorf err ''failed to reconcile, requeuing after %#q'']\<rparr>) \<and>
         sint (30 * Second) = 30000000000"
proof -
  have "sint (30 * Second) = 30000000000" by (simp add: Second_def)
  with assms show ?thesis
    by (cases "Time_IsZero (DeletionTimestamp cluster)") (simp_all add: Reconcile_body_def Let_def)
qed

theorem Reconcile_handler_error_requeues_after_30s_witness:
  "GetCluster memClient [ClusterObj (objectWith ''Cluster'' ''abc123'' None)] (''default'', ''abc123'') =
     Inr (objectWith ''Cluster'' ''abc123'' None) \<and>
   (if Time_IsZero (DeletionTimestamp (objectWith ''Cluster'' ''abc123'' None))
    then failingHandler else reconcileDelete)
      (newReconciler\<lparr>loopSeq := loopSeq newReconciler + 1\<rparr>) (objectWith ''Cluster'' ''abc123'' None) =
     ((emptyResult, Some (Errorf ''handler failed'' [])), newReconciler\<lparr>loopSeq := loopSeq newReconciler + 1\<rparr>) \<and>
   fst (Reconcile_body failingHandler reconcileDelete memClient
         [ClusterObj (objectWith ''Cluster'' ''abc123'' None)] newReconciler (''default'', ''abc123'')) =
     (\<lparr>Requeue = False, RequeueAfter = 30000000000\<rparr>, None) \<and>
   GetCluster memClient [ClusterObj (objectWith ''Cluster'' ''abc123'' (Some 1617235200))] (''default'', ''abc123'') =
     Inr (objectWith ''Cluster'' ''abc123'' (Some 1617235200)) \<and>
   fst (Reconcile_body reconcile failingHandler memClient
         [ClusterObj (objectWith ''Cluster'' ''abc123'' (Some 1617235200))] newReconciler (''default'', ''abc123'')) =
     (\<lparr>Requeue = False, RequeueAfter = 30000000000\<rparr>, None)"
proof -
  let ?live = "objectWith ''Cluster'' ''abc123'' None"
  let ?gone = "objectWith ''Cluster'' ''abc123'' (Some 1617235200)"
  let ?r = "newReconciler\<lparr>loopSeq := loopSeq newReconciler + 1\<rparr>"
  have g1: "GetCluster memClient [ClusterObj ?live] (''default'', ''abc123'') = Inr ?live"
    by (simp add: memClient_def getFrom_def objectWith_def)
  have g2: "GetCluster memClient [ClusterObj ?gone] (''default'', ''abc123'') = Inr ?gone"
    by (simp add: memClient_def getFrom_def objectWith_def)
  have h1: "(if Time_IsZero (DeletionTimestamp ?live) then failingHandler else reconcileDelete) ?r ?live =
      ((emptyResult, Some (Errorf ''handler failed'' [])), ?r)"
    by (simp add: Time_IsZero_def objectWith_def failingHandler_def)
  have h2: "(if Time_IsZero (DeletionTimestamp ?gone) then reconcile else failingHandler) ?r ?gone =
      ((emptyResult, Some (Errorf ''handler failed'' [])), ?r)"
    by (simp add: Time_IsZero_def objectWith_def failingHandler_def)
  have s: "30 * Second = (30000000000 :: 64 word)" by (simp add: Second_def)
  from Reconcile_handler_error_requeues_after_30s [OF g1 h1]
    Reconcile_handler_error_requeues_after_30s [OF g2 h2] g1 g2 h1 s
  show ?thesis by simp
qed

section \<open>The read steps and the cache\<close>

lemma hasLabels_objectWith:
  "hasLabels [(ClusterLabelName, ''abc123'')] (Labels (objectWith k n d))"
  by (simp add: hasLabels_def objectWith_def)

lemma hasLabels_azureClusterWith:
  "hasLabels [(ClusterLabelName, ''abc123'')] (Labels (azureClusterWith k h ci))"
  by (simp add: hasLabels_def azureClusterWith_def ClusterLabelName_def ReleaseVersion_def)

text \<open>
  C6. When the list of Clusters for the cluster ID is empty, \<^verbatim>\<open>readCluster\<close> fails
  with its not-found error; when it holds two or more, with its more-than-one error;
  in both cases the cache is left as it was. When it holds one object, that object is
  cached under its \<^verbatim>\<open>Kind\<close> and no error is returned. \<^verbatim>\<open>readAzureConfig\<close> and
  \<^verbatim>\<open>readAzureCluster\<close> fail in the same way on an empty list and on a list of two
  or more.
\<close>

theorem read_steps_zero_one_many:
  assumes "ListCluster c s [(ClusterLabelName, clusterID m)] = Inr cll"
    and "ListAzureConfig c s [(ClusterLabelName, clusterID m)] = Inr acl"
    and "ListAzureCluster c s [(ClusterLabelName, clusterID m)] = Inr azl"
  shows "readCluster c s m =
           (if length (Items cll) = 0
            then (Some (Mask (Errorf ''Cluster not found for %q'' [clusterID m])), m)
            else if 2 \<le> length (Items cll)
            then (Some (Mask (Errorf ''more than one Cluster for cluster ID %q'' [clusterID m])), m)
            else (None, m\<lparr>crs := (crs m)(Kind (Items cll ! 0) \<mapsto> ClusterObj (Items cll ! 0))\<rparr>)) \<and>
         (length (Items acl) = 0 \<longrightarrow> readAzureConfig c s m =
            (Some (Mask (Errorf ''AzureConfig not found for %q'' [clusterID m])), m)) \<and>
         (2 \<le> length (Items acl) \<longrightarrow> readAzureConfig c s m =
            (Some (Mask (Errorf ''more than one AzureConfig for cluster ID %q'' [clusterID m])), m)) \<and>
         (length (Items azl) = 0 \<longrightarrow> readAzureCluster c s m =
            (Some (Mask (Errorf ''AzureCluster not found for %q'' [clusterID m])), m)) \<and>
         (2 \<le> length (Items azl) \<longrightarrow> readAzureCluster c s m =
            (Some (Mask (Errorf ''more than one AzureCluster for cluster ID %q'' [clusterID m])), m))"
proof -
  have a: "1 < n \<longleftrightarrow> 2 \<le> n" for n :: nat by arith
  from assms(1) have "readCluster c s m =
           (if length (Items cll) = 0
            then (Some (Mask (Errorf ''Cluster not found for %q'' [clusterID m])), m)
            else if 2 \<le> length (Items cll)
            then (Some (Mask (Errorf ''more than one Cluster for cluster ID %q'' [clusterID m])), m)
            else (None, m\<lparr>crs := (crs m)(Kind (Items cll ! 0) \<mapsto> ClusterObj (Items cll ! 0))\<rparr>))"
    by (simp add: readCluster_def Let_def a)
  moreover from assms(2) have "length (Items acl) = 0 \<longrightarrow> readAzureConfig c s m =
            (Some (Mask (Errorf ''AzureConfig not found for %q'' [clusterID m])), m)"
    by (simp add: readAzureConfig_def)
  moreover from assms(2) have "2 \<le> length (Items acl) \<longrightarrow> readAzureConfig c s m =
            (Some (Mask (Errorf ''more than one AzureConfig for cluster ID %q'' [clusterID m])), m)"
    by (auto simp: readAzureConfig_def)
  moreover from assms(3) have "length (Items azl) = 0 \<longrightarrow> readAzureCluster c s m =
            (Some (Mask (Errorf ''AzureCluster not found for %q'' [clusterID m])), m)"
    by (simp add: readAzureCluster_def)
  moreover from assms(3) have "2 \<le> length (Items azl) \<longrightarrow> readAzureCluster c s m =
            (Some (Mask (Errorf ''more than one AzureCluster for cluster ID %q'' [clusterID m])), m)"
    by (auto simp: readAzureCluster_def)
  ultimately show ?thesis by blast
qed


theorem read_steps_zero_one_many_witness:
  "ListCluster memClient
       [ClusterObj (objectWith ''Cluster'' ''abc123'' None),
        AzureClusterObj (azureClusterWith ''AzureCluster'' ''a.k8s.example.com'' ''10.0.0.0/16''),
        AzureClusterObj (azureClusterWith ''AzureCluster'' ''b.k8s.example.com'' ''10.1.0.0/16'')]
       [(ClusterLabelName, clusterID (newMigrator ''abc123''))] =
     Inr \<lparr>Kind = [], Items = [objectWith ''Cluster'' ''abc123'' None]\<rparr> \<and>
   readCluster memClient
       [ClusterObj (objectWith ''Cluster'' ''abc123'' None),
        AzureClusterObj (azureClusterWith ''AzureCluster'' ''a.k8s.example.com'' ''10.0.0.0/16''),
        AzureClusterObj (azureClusterWith ''AzureCluster'' ''b.k8s.example.com'' ''10.1.0.0/16'')]
       (newMigrator ''abc123'') =
     (None, (newMigrator ''abc123'')
        \<lparr>crs := (crs (newMigrator ''abc123''))
                  (''Cluster'' \<mapsto> ClusterObj (objectWith ''Cluster'' ''abc123'' None))\<rparr>) \<and>
   readAzureConfig memClient
       [ClusterObj (objectWith ''Cluster'' ''abc123'' None),
        AzureClusterObj (azureClusterWith ''AzureCluster'' ''a.k8s.example.com'' ''10.0.0.0/16''),
        AzureClusterObj (azureClusterWith ''AzureCluster'' ''b.k8s.example.com'' ''10.1.0.0/16'')]
       (newMigrator ''abc123'') =
     (Some (Mask (Errorf ''AzureConfig not found for %q'' [''abc123''])), newMigrator ''abc123'') \<and>
   readAzureCluster memClient
       [ClusterObj (objectWith ''Cluster'' ''abc123'' None),
        AzureClusterObj (azureClusterWith ''AzureCluster'' ''a.k8s.example.com'' ''10.0.0.0/16''),
        AzureClusterObj (azureClusterWith ''AzureCluster'' ''b.k8s.example.com'' ''10.1.0.0/16'')]
       (newMigrator ''abc123'') =
     (Some (Mask (Errorf ''more than one AzureCluster for cluster ID %q'' [''abc123''])),
      newMigrator ''abc123'') \<and>
   readCluster memClient [] (newMigrator ''abc123'') =
     (Some (Mask (Errorf ''Cluster not found for %q'' [''abc123''])), newMigrator ''abc123'') \<and>
   readCluster memClient
       [ClusterObj (objectWith ''Cluster'' ''abc123'' None),
        ClusterObj (objectWith ''Cluster'' ''abc123-copy'' None),
        AzureConfigObj (objectWith ''AzureConfig'' ''abc123'' None),
        AzureConfigObj (objectWith ''AzureConfig'' ''abc123-copy'' None)]
       (newMigrator ''abc123'') =
     (Some (Mask (Errorf ''more than one Cluster for cluster ID %q'' [''abc123''])),
      newMigrator ''abc123'') \<and>
   readAzureConfig memClient
       [ClusterObj (objectWith ''Cluster'' ''abc123'' None),
        ClusterObj (objectWith ''Cluster'' ''abc123-copy'' None),
        AzureConfigObj (objectWith ''AzureConfig'' ''abc123'' None),
        AzureConfigObj (objectWith ''AzureConfig'' ''abc123-copy'' None)]
       (newMigrator ''abc123'') =
     (Some (Mask (Errorf ''more than one AzureConfig for cluster ID %q'' [''abc123''])),
      newMigrator ''abc123'')"
proof -
  let ?m = "newMigrator ''abc123''"
  let ?A = "[ClusterObj (objectWith ''Cluster'' ''abc123'' None),
        AzureClusterObj (azureClusterWith ''AzureCluster'' ''a.k8s.example.com'' ''10.0.0.0/16''),
        AzureClusterObj (azureClusterWith ''AzureCluster'' ''b.k8s.example.com'' ''10.1.0.0/16'')]"
  let ?B = "[ClusterObj (objectWith ''Cluster'' ''abc123'' None),
        ClusterObj (objectWith ''Cluster'' ''abc123-copy'' None),
        AzureConfigObj (objectWith ''AzureConfig'' ''abc123'' None),
        AzureConfigObj (objectWith ''AzureConfig'' ''abc123-copy'' None)]"
  have id: "clusterID ?m = ''abc123''" by (simp add: newMigrator_def)
  have k: "Kind (objectWith ''Cluster'' ''abc123'' None) = ''Cluster''" by (simp add: objectWith_def)
  have a1: "ListCluster memClient ?A [(ClusterLabelName, clusterID ?m)] =
      Inr \<lparr>Kind = [], Items = [objectWith ''Cluster'' ''abc123'' None]\<rparr>"
    by (simp add: memClient_def id hasLabels_objectWith)
  have a2: "ListAzureConfig memClient ?A [(ClusterLabelName, clusterID ?m)] =
      Inr \<lparr>Kind = [], Items = []\<rparr>"
    by (simp add: memClient_def id)
  have a3: "ListAzureCluster memClient ?A [(ClusterLabelName, clusterID ?m)] =
      Inr \<lparr>Kind = [], Items = [azureClusterWith ''AzureCluster'' ''a.k8s.example.com'' ''10.0.0.0/16'',
                               azureClusterWith ''AzureCluster'' ''b.k8s.example.com'' ''10.1.0.0/16'']\<rparr>"
    by (simp add: memClient_def id hasLabels_azureClusterWith)
  have e1: "ListCluster memClient [] [(ClusterLabelName, clusterID ?m)] = Inr \<lparr>Kind = [], Items = []\<rparr>"
    by (simp add: memClient_def)
  have e2: "ListAzureConfig memClient [] [(ClusterLabelName, clusterID ?m)] = Inr \<lparr>Kind = [], Items = []\<rparr>"
    by (simp add: memClient_def)
  have e3: "ListAzureCluster memClient [] [(ClusterLabelName, clusterID ?m)] = Inr \<lparr>Kind = [], Items = []\<rparr>"
    by (simp add: memClient_def)
  have b1: "ListCluster memClient ?B [(ClusterLabelName, clusterID ?m)] =
      Inr \<lparr>Kind = [], Items = [objectWith ''Cluster'' ''abc123'' None,
                               objectWith ''Cluster'' ''abc123-copy'' None]\<rparr>"
    by (simp add: memClient_def id hasLabels_objectWith)
  have b2: "ListAzureConfig memClient ?B [(ClusterLabelName, clusterID ?m)] =
      Inr \<lparr>Kind = [], Items = [objectWith ''AzureConfig'' ''abc123'' None,
                               objectWith ''AzureConfig'' ''abc123-copy'' None]\<rparr>"
    by (simp add: memClient_def id hasLabels_objectWith)
  have b3: "ListAzureCluster memClient ?B [(ClusterLabelName, clusterID ?m)] = Inr \<lparr>Kind = [], Items = []\<rparr>"
    by (simp add: memClient_def id)
  from read_steps_zero_one_many [OF a1 a2 a3] read_steps_zero_one_many [OF e1 e2 e3]
    read_steps_zero_one_many [OF b1 b2 b3] a1
  show ?thesis by (simp add: id k)
qed

lemma runReadSteps_readPhase:
  assumes "GetSecret c s (''default'', clusterID m @ ''-encryption'') = Inr sec"
    and "ListAzureConfig c s [(ClusterLabelName, clusterID m)] = Inr acl" and "Items acl = [ac]"
    and "ListCluster c s [(ClusterLabelName, clusterID m)] = Inr cll" and "Items cll = [cl]"
    and "ListAzureCluster c s [(ClusterLabelName, clusterID m)] = Inr azl" and "Items azl = [az]"
    and "ListMachinePool c s [(ClusterLabelName, clusterID m)] = Inr mpl"
    and "ListAzureMachinePool c s [(ClusterLabelName, clusterID m)] = Inr ampl"
  shows "runReadSteps c s m readPhase =
           (None, m\<lparr>crs := (crs m)(EncryptionSecret \<mapsto> SecretObj sec,
                                      Kind ac \<mapsto> AzureConfigObj ac,
                                      Kind cl \<mapsto> ClusterObj cl,
                                      Kind az \<mapsto> AzureClusterObj az,
                                      Kind mpl \<mapsto> MachinePoolListObj mpl,
                                      Kind ampl \<mapsto> AzureMachinePoolListObj ampl)\<rparr>)"
  using assms
  by (simp add: readPhase_def readEncryptionSecret_def readAzureConfig_def readCluster_def
      readAzureCluster_def readMachinePools_def readAzureMachinePools_def)

text \<open>
  C9, as amended. When every step of the read phase succeeds, the cache at its end is
  the cache at its start with six entries written in order: the secret under
  \<^verbatim>\<open>"EncryptionSecret"\<close>, and each other object or list under the \<^verbatim>\<open>Kind\<close> the client
  returned it with. When these six keys are pairwise distinct, every entry is still
  in the cache at the end: no step has overwritten what an earlier step wrote.
\<close>

theorem read_phase_keeps_entries_of_distinct_kinds:
  assumes "GetSecret c s (''default'', clusterID m @ ''-encryption'') = Inr sec"
    and "ListAzureConfig c s [(ClusterLabelName, clusterID m)] = Inr acl" and "Items acl = [ac]"
    and "ListCluster c s [(ClusterLabelName, clusterID m)] = Inr cll" and "Items cll = [cl]"
    and "ListAzureCluster c s [(ClusterLabelName, clusterID m)] = Inr azl" and "Items azl = [az]"
    and "ListMachinePool c s [(ClusterLabelName, clusterID m)] = Inr mpl"
    and "ListAzureMachinePool c s [(ClusterLabelName, clusterID m)] = Inr ampl"
    and "distinct [EncryptionSecret, Kind ac, Kind cl, Kind az, Kind mpl, Kind ampl]"
  shows "fst (runReadSteps c s m readPhase) = None \<and>
         crs (snd (runReadSteps c s m readPhase)) EncryptionSecret = Some (SecretObj sec) \<and>
         crs (snd (runReadSteps c s m readPhase)) (Kind ac) = Some (AzureConfigObj ac) \<and>
         crs (snd (runReadSteps c s m readPhase)) (Kind cl) = Some (ClusterObj cl) \<and>
         crs (snd (runReadSteps c s m readPhase)) (Kind az) = Some (AzureClusterObj az) \<and>
         crs (snd (runReadSteps c s m readPhase)) (Kind mpl) = Some (MachinePoolListObj mpl) \<and>
         crs (snd (runReadSteps c s m readPhase)) (Kind ampl) = Some (AzureMachinePoolListObj ampl) \<and>
         (\<forall>k. k \<notin> {EncryptionSecret, Kind ac, Kind cl, Kind az, Kind mpl, Kind ampl} \<longrightarrow>
              crs (snd (runReadSteps c s m readPhase)) k = crs m k)"
proof -
  note r = runReadSteps_readPhase [OF assms(1-9)]
  from assms(10) show ?thesis by (simp add: r)
qed

lemma secretWith_meta: "Namespace (secretWith n k) = ''default''" "Name (secretWith n k) = n"
  by (simp_all add: secretWith_def)

theorem read_phase_keeps_entries_of_distinct_kinds_witness:
  "fst (runReadSteps kindedClient kindedStore (newMigrator ''abc123'') readPhase) = None \<and>
   distinct [EncryptionSecret, ''AzureConfig'', ''Cluster'', ''AzureCluster'', ''MachinePoolList'',
             ''AzureMachinePoolList''] \<and>
   crs (snd (runReadSteps kindedClient kindedStore (newMigrator ''abc123'') readPhase)) EncryptionSecret =
     Some (SecretObj (secretWith ''abc123-encryption'' ''c2VjcmV0'')) \<and>
   crs (snd (runReadSteps kindedClient kindedStore (newMigrator ''abc123'') readPhase)) ''AzureConfig'' =
     Some (AzureConfigObj (objectWith ''AzureConfig'' ''abc123'' None)) \<and>
   crs (snd (runReadSteps kindedClient kindedStore (newMigrator ''abc123'') readPhase)) ''Cluster'' =
     Some (ClusterObj (objectWith ''Cluster'' ''abc123'' None)) \<and>
   crs (snd (runReadSteps kindedClient kindedStore (newMigrator ''abc123'') readPhase)) ''AzureCluster'' =
     Some (AzureClusterObj (azureClusterWith ''AzureCluster''
             ''api.abc123.k8s.example.installation.com'' ''10.0.0.0/16'')) \<and>
   crs (snd (runReadSteps kindedClient kindedStore (newMigrator ''abc123'') readPhase)) ''MachinePoolList'' =
     Some (MachinePoolListObj \<lparr>Kind = ''MachinePoolList'', Items = []\<rparr>) \<and>
   crs (snd (runReadSteps kindedClient kindedStore (newMigrator ''abc123'') readPhase))
       ''AzureMachinePoolList'' =
     Some (AzureMachinePoolListObj \<lparr>Kind = ''AzureMachinePoolList'', Items = []\<rparr>)"
proof -
  let ?m = "newMigrator ''abc123''"
  let ?az = "azureClusterWith ''AzureCluster'' ''api.abc123.k8s.example.installation.com'' ''10.0.0.0/16''"
  have id: "clusterID ?m = ''abc123''" by (simp add: newMigrator_def)
  have g: "GetSecret kindedClient kindedStore (''default'', clusterID ?m @ ''-encryption'') =
      Inr (secretWith ''abc123-encryption'' ''c2VjcmV0'')"
    by (simp add: kindedClient_def memClient_def kindedStore_def id getFrom_def secretWith_meta)
  have a: "ListAzureConfig kindedClient kindedStore [(ClusterLabelName, clusterID ?m)] =
      Inr \<lparr>Kind = [], Items = [objectWith ''AzureConfig'' ''abc123'' None]\<rparr>"
    by (simp add: kindedClient_def memClient_def kindedStore_def id hasLabels_objectWith)
  have b: "ListCluster kindedClient kindedStore [(ClusterLabelName, clusterID ?m)] =
      Inr \<lparr>Kind = [], Items = [objectWith ''Cluster'' ''abc123'' None]\<rparr>"
    by (simp add: kindedClient_def memClient_def kindedStore_def id hasLabels_objectWith)
  have c: "ListAzureCluster kindedClient kindedStore [(ClusterLabelName, clusterID ?m)] =
      Inr \<lparr>Kind = [], Items = [?az]\<rparr>"
    by (simp add: kindedClient_def memClient_def kindedStore_def id hasLabels_azureClusterWith)
  have d: "ListMachinePool kindedClient kindedStore [(ClusterLabelName, clusterID ?m)] =
      Inr \<lparr>Kind = ''MachinePoolList'', Items = []\<rparr>"
    by (simp add: kindedClient_def)
  have e: "ListAzureMachinePool kindedClient kindedStore [(ClusterLabelName, clusterID ?m)] =
      Inr \<lparr>Kind = ''AzureMachinePoolList'', Items = []\<rparr>"
    by (simp add: kindedClient_def)
  have i1: "Items \<lparr>Kind = [], Items = [objectWith ''AzureConfig'' ''abc123'' None]\<rparr> =
      [objectWith ''AzureConfig'' ''abc123'' None]" by simp
  have i2: "Items \<lparr>Kind = [], Items = [objectWith ''Cluster'' ''abc123'' None]\<rparr> =
      [objectWith ''Cluster'' ''abc123'' None]" by simp
  have i3: "Items \<lparr>Kind = [], Items = [?az]\<rparr> = [?az]" by simp
  have k: "Kind (objectWith ''AzureConfig'' ''abc123'' None) = ''AzureConfig''"
    "Kind (objectWith ''Cluster'' ''abc123'' None) = ''Cluster''"
    "Kind ?az = ''AzureCluster''"
    by (simp_all add: objectWith_def azureClusterWith_def)
  have dist: "distinct [EncryptionSecret, Kind (objectWith ''AzureConfig'' ''abc123'' None),
      Kind (objectWith ''Cluster'' ''abc123'' None), Kind ?az,
      Kind \<lparr>Kind = ''MachinePoolList'', Items = ([] :: MachinePool list)\<rparr>,
      Kind \<lparr>Kind = ''AzureMachinePoolList'', Items = ([] :: AzureMachinePool list)\<rparr>]"
    by (simp add: k EncryptionSecret_def)
  from read_phase_keeps_entries_of_distinct_kinds [OF g a i1 b i2 c i3 d e dist] dist
  show ?thesis by (simp add: k)
qed

text \<open>
  C9 as stated fails when the client returns the objects with an empty \<^verbatim>\<open>Kind\<close>:
  every step of the read phase succeeds, the Cluster is cached under the empty key by
  \<^verbatim>\<open>readCluster\<close>, and at the end of the phase that key holds the list of
  AzureMachinePools, which \<^verbatim>\<open>readAzureMachinePools\<close> wrote over it.
\<close>

theorem read_phase_overwrites_counterexample:
  "fst (runReadSteps memClient unkindedStore (newMigrator ''abc123'') readPhase) = None \<and>
   crs (snd (runReadSteps memClient unkindedStore (newMigrator ''abc123'')
               [ReadEncryptionSecret, ReadAzureConfig, ReadCluster])) [] =
     Some (ClusterObj (objectWith [] ''abc123'' None)) \<and>
   crs (snd (runReadSteps memClient unkindedStore (newMigrator ''abc123'') readPhase)) [] =
     Some (AzureMachinePoolListObj \<lparr>Kind = [], Items = []\<rparr>) \<and>
   crs (snd (runReadSteps memClient unkindedStore (newMigrator ''abc123'') readPhase)) [] \<noteq>
     Some (ClusterObj (objectWith [] ''abc123'' None))"
proof -
  let ?m = "newMigrator ''abc123''"
  let ?az = "azureClusterWith [] ''api.abc123.k8s.example.installation.com'' ''10.0.0.0/16''"
  have id: "clusterID ?m = ''abc123''" by (simp add: newMigrator_def)
  have g: "GetSecret memClient unkindedStore (''default'', ''abc123-encryption'') =
      Inr (secretWith ''abc123-encryption'' ''c2VjcmV0'')"
    by (simp add: memClient_def unkindedStore_def getFrom_def secretWith_meta)
  have a: "ListAzureConfig memClient unkindedStore [(ClusterLabelName, ''abc123'')] =
      Inr \<lparr>Kind = [], Items = [objectWith [] ''abc123'' None]\<rparr>"
    by (simp add: memClient_def unkindedStore_def hasLabels_objectWith)
  have b: "ListCluster memClient unkindedStore [(ClusterLabelName, ''abc123'')] =
      Inr \<lparr>Kind = [], Items = [objectWith [] ''abc123'' None]\<rparr>"
    by (simp add: memClient_def unkindedStore_def hasLabels_objectWith)
  have c: "ListAzureCluster memClient unkindedStore [(ClusterLabelName, ''abc123'')] =
      Inr \<lparr>Kind = [], Items = [?az]\<rparr>"
    by (simp add: memClient_def unkindedStore_def hasLabels_azureClusterWith)
  have d: "ListMachinePool memClient unkindedStore [(ClusterLabelName, ''abc123'')] =
      Inr \<lparr>Kind = [], Items = []\<rparr>"
    by (simp add: memClient_def)
  have e: "ListAzureMachinePool memClient unkindedStore [(ClusterLabelName, ''abc123'')] =
      Inr \<lparr>Kind = [], Items = []\<rparr>"
    by (simp add: memClient_def)
  have k: "Kind (objectWith [] ''abc123'' None) = []" "Kind ?az = []"
    by (simp_all add: objectWith_def azureClusterWith_def)
  show ?thesis
    by (simp add: readPhase_def readEncryptionSecret_def readAzureConfig_def readCluster_def
        readAzureCluster_def readMachinePools_def readAzureMachinePools_def id g a b c d e k)
qed

section \<open>The write steps\<close>

lemma IsAlreadyExists_simps:
  "IsAlreadyExists None = False"
  "IsAlreadyExists (Some (StatusError r)) = (r = StatusReasonAlreadyExists)"
  by (simp_all add: IsAlreadyExists_def)

lemma createEncryptionConfigSecret_cases:
  "createEncryptionConfigSecret c m s =
     (case crs m EncryptionSecret of
        None \<Rightarrow> (Returned (Some (Mask (Errorf ''encryption secret not found'' []))), s)
      | Some (SecretObj x) \<Rightarrow> (Panicked ''invalid memory address or nil pointer dereference'', s)
      | Some obj \<Rightarrow>
          (Returned (Some (Mask (Errorf ''can't convert obj (%T) to %T''
                                   [typeName obj, ''*v1.Secret'']))), s))"
  by (simp add: createEncryptionConfigSecret_def split: option.splits obj.splits)

lemma createEncryptionConfigSecret_state: "snd (createEncryptionConfigSecret c m s) = s"
  by (simp add: createEncryptionConfigSecret_cases split: option.splits obj.splits)

lemma createEncryptionConfigSecret_no_success:
  "fst (createEncryptionConfigSecret c m s) \<noteq> Returned None"
  by (simp add: createEncryptionConfigSecret_cases split: option.splits obj.splits)

lemma createProxyConfigSecret_policy:
  "Create c s (proxyConfigSecret m) = (err, s') \<Longrightarrow>
   createProxyConfigSecret c m s = (if IsAlreadyExists err then None else map_option Mask err, s')"
  by (simp add: createProxyConfigSecret_def split: option.splits)

lemma createKubeadmControlPlane_policy:
  "crs m ''AzureCluster'' = Some (AzureClusterObj cluster) \<Longrightarrow>
   kubeadmControlPlane ext c s m cluster = Returned (Inr kcp) \<Longrightarrow>
   Create c s kcp = (err, s') \<Longrightarrow>
   createKubeadmControlPlane ext c m s =
     (Returned (if IsAlreadyExists err then None else map_option Mask err), s')"
  by (simp add: createKubeadmControlPlane_def split: option.splits)

lemma createMasterAzureMachineTemplate_policy:
  "masterAzureMachineTemplate ext m = Inr x \<Longrightarrow> Create c s x = (err, s') \<Longrightarrow>
   createMasterAzureMachineTemplate ext c m s =
     (if IsAlreadyExists err then None else map_option Mask err, s')"
  by (simp add: createMasterAzureMachineTemplate_def split: option.splits)

lemma createWorkersKubeadmConfigTemplate_policy:
  "workersKubeadmConfigTemplate ext m = Inr x \<Longrightarrow> Create c s x = (err, s') \<Longrightarrow>
   createWorkersKubeadmConfigTemplate ext c m s =
     (if IsAlreadyExists err then None else map_option Mask err, s')"
  by (simp add: createWorkersKubeadmConfigTemplate_def split: option.splits)

lemma createWorkersAzureMachineTemplate_policy:
  "workersAzureMachineTemplate ext m = Inr x \<Longrightarrow> Create c s x = (err, s') \<Longrightarrow>
   createWorkersAzureMachineTemplate ext c m s =
     (if IsAlreadyExists err then None else map_option Mask err, s')"
  by (simp add: createWorkersAzureMachineTemplate_def split: option.splits)

lemma createWorkersMachineDeployment_policy:
  "workersMachineDeployment ext m = Inr x \<Longrightarrow> Create c s x = (err, s') \<Longrightarrow>
   createWorkersMachineDeployment ext c m s =
     (if IsAlreadyExists err then None else map_option Mask err, s')"
  by (simp add: createWorkersMachineDeployment_def split: option.splits)

lemma runWriteSteps_fail_fast:
  "runWriteStep ext c m step s = (Returned (Some e), s') \<Longrightarrow>
   runWriteSteps ext c m (step # steps) s = (Returned (Some (Mask e)), s')"
  by simp

text \<open>
  C7. In each write step that reaches its \<^verbatim>\<open>Create\<close> call, an already-exists error
  of the call makes the step return no error, a nil error makes it return no error,
  and any other error is returned wrapped by \<^verbatim>\<open>microerror.Mask\<close>, with the client
  state the call left. \<^verbatim>\<open>createEncryptionConfigSecret\<close> never reaches its call: it
  leaves the client state as it was. In the sequence of steps, a step that returns an
  error ends the sequence with that error, wrapped, and the state of that step.
\<close>

theorem write_steps_return_create_errors:
  "(Create c s (proxyConfigSecret m) = (err1, s1) \<longrightarrow>
      createProxyConfigSecret c m s =
        (if IsAlreadyExists err1 then None else map_option Mask err1, s1)) \<and>
   (crs m ''AzureCluster'' = Some (AzureClusterObj cluster) \<and>
    kubeadmControlPlane ext c s m cluster = Returned (Inr kcp) \<and>
    Create c s kcp = (err2, s2) \<longrightarrow>
      createKubeadmControlPlane ext c m s =
        (Returned (if IsAlreadyExists err2 then None else map_option Mask err2), s2)) \<and>
   (masterAzureMachineTemplate ext m = Inr mamt \<and> Create c s mamt = (err3, s3) \<longrightarrow>
      createMasterAzureMachineTemplate ext c m s =
        (if IsAlreadyExists err3 then None else map_option Mask err3, s3)) \<and>
   (workersKubeadmConfigTemplate ext m = Inr kct \<and> Create c s kct = (err4, s4) \<longrightarrow>
      createWorkersKubeadmConfigTemplate ext c m s =
        (if IsAlreadyExists err4 then None else map_option Mask err4, s4)) \<and>
   (workersAzureMachineTemplate ext m = Inr wamt \<and> Create c s wamt = (err5, s5) \<longrightarrow>
      createWorkersAzureMachineTemplate ext c m s =
        (if IsAlreadyExists err5 then None else map_option Mask err5, s5)) \<and>
   (workersMachineDeployment ext m = Inr md \<and> Create c s md = (err6, s6) \<longrightarrow>
      createWorkersMachineDeployment ext c m s =
        (if IsAlreadyExists err6 then None else map_option Mask err6, s6)) \<and>
   snd (createEncryptionConfigSecret c m s) = s \<and>
   (runWriteStep ext c m step s = (Returned (Some e), s') \<longrightarrow>
      runWriteSteps ext c m (step # steps) s = (Returned (Some (Mask e)), s'))"
  using createProxyConfigSecret_policy [of c s m err1 s1]
    createKubeadmControlPlane_policy [of m cluster ext c s kcp err2 s2]
    createMasterAzureMachineTemplate_policy [of ext m mamt c s err3 s3]
    createWorkersKubeadmConfigTemplate_policy [of ext m kct c s err4 s4]
    createWorkersAzureMachineTemplate_policy [of ext m wamt c s err5 s5]
    createWorkersMachineDeployment_policy [of ext m md c s err6 s6]
    createEncryptionConfigSecret_state [of c m s]
    runWriteSteps_fail_fast [of ext c m step s e s' steps]
  by blast

lemma Create_refusingClient: "Create (refusingClient e) s x = (Some e, s)"
  by (simp add: refusingClient_def)

lemma GetRelease_kindedStore:
  "GetRelease memClient kindedStore ([], ''14.1.0'') =
     Inr (releaseWith ''14.1.0'' [(''etcd'', ''3.4.14''), (''kubernetes'', ''1.19.9'')])"
  by (simp add: memClient_def kindedStore_def getFrom_def releaseWith_def)

lemma getReleaseComponents_kindedStore:
  "getReleaseComponents memClient kindedStore ''v14.1.0'' =
     Inr [''etcd'' \<mapsto> ''3.4.14'', ''kubernetes'' \<mapsto> ''1.19.9'']"
  by (simp add: getReleaseComponents_def TrimPrefix_v_def GetRelease_kindedStore releaseWith_def)

lemma getReleaseComponents_refusingClient:
  "getReleaseComponents (refusingClient e) s v = getReleaseComponents memClient s v"
  by (simp add: getReleaseComponents_def refusingClient_def)

lemma kubeadmControlPlane_refusingClient:
  "kubeadmControlPlane ext (refusingClient e) s m cl = kubeadmControlPlane ext memClient s m cl"
  unfolding kubeadmControlPlane_def getReleaseComponents_refusingClient by (rule refl)

lemma kubeadmControlPlane_kindedStore:
  "kubeadmControlPlane stubExternals memClient kindedStore cachedMigrator
     (azureClusterWith ''AzureCluster'' ''api.abc123.k8s.example.installation.com'' ''10.0.0.0/16'') =
   Returned (Inr (KubeadmControlPlaneObj
     \<lparr>Kind = ''KubeadmControlPlane'',
      Name = ''templates/kubeadm_controlplane_azure.yaml.tmpl ClusterID=abc123 ClusterCIDR=? ClusterMasterIP=10.0.0.4 EtcdVersion=3.4.14 K8sVersion=1.19.9 InstallationBaseDomain=example.installation.com'',
      Namespace = ''default'', Labels = Map.empty, DeletionTimestamp = None,
      Spec = ''templates/kubeadm_controlplane_azure.yaml.tmpl ClusterID=abc123 ClusterCIDR=? ClusterMasterIP=10.0.0.4 EtcdVersion=3.4.14 K8sVersion=1.19.9 InstallationBaseDomain=example.installation.com''\<rparr>))"
proof -
  let ?cl = "azureClusterWith ''AzureCluster'' ''api.abc123.k8s.example.installation.com'' ''10.0.0.0/16''"
  have d: "getInstallationBaseDomainFromAPIEndpoint (ControlPlaneEndpoint_Host ?cl) =
      Inr ''example.installation.com''"
    by (simp add: azureClusterWith_def getInstallationBaseDomainFromAPIEndpoint_def)
  have v: "getVNETCIDR stubExternals ?cl = Inr \<lparr>IP = [10, 0, 0, 0], IPMask = [255, 255, 0, 0]\<rparr>"
    by (simp add: getVNETCIDR_def azureClusterWith_def ParseCIDR_10_0_0_0_16)
  have l: "lookupString (Labels ?cl) ReleaseVersion = ''v14.1.0''"
    by (simp add: lookupString_def azureClusterWith_def)
  have g: "getMasterIPForVNet \<lparr>IP = [10, 0, 0, 0], IPMask = [255, 255, 0, 0]\<rparr> =
      Returned (IPv4 10 0 0 4)"
    by (simp add: getMasterIPForVNet_v4)
  have s: "IP_String f (IPv4 10 0 0 4) = ''10.0.0.4''" for f
    by (simp add: IP_String_IPv4 ubtoa_def digit_def)
  have id: "clusterID cachedMigrator = ''abc123''" by (simp add: cachedMigrator_def)
  show ?thesis
    unfolding kubeadmControlPlane_def d v l id getReleaseComponents_kindedStore
    by (simp add: stubExternals_def lookupString_def g s)
qed

lemma template_steps_stubExternals:
  "masterAzureMachineTemplate stubExternals cachedMigrator =
     Inr (AzureMachineTemplateObj
       \<lparr>Kind = ''AzureMachineTemplate'',
        Name = ''templates/controlplane_azure_machine_template.yaml.tmpl ClusterID=abc123'',
        Namespace = ''default'', Labels = Map.empty, DeletionTimestamp = None,
        Spec = ''templates/controlplane_azure_machine_template.yaml.tmpl ClusterID=abc123''\<rparr>)"
  "workersKubeadmConfigTemplate stubExternals cachedMigrator =
     Inr (KubeadmConfigTemplateObj
       \<lparr>Kind = ''KubeadmConfigTemplate'',
        Name = ''templates/workers_kubeadm_config_template_azure.yaml.tmpl ClusterID=abc123'',
        Namespace = ''default'', Labels = Map.empty, DeletionTimestamp = None,
        Spec = ''templates/workers_kubeadm_config_template_azure.yaml.tmpl ClusterID=abc123''\<rparr>)"
  "workersAzureMachineTemplate stubExternals cachedMigrator =
     Inr (AzureMachineTemplateObj
       \<lparr>Kind = ''AzureMachineTemplate'',
        Name = ''templates/workers_azure_machine_template.yaml.tmpl ClusterID=abc123'',
        Namespace = ''default'', Labels = Map.empty, DeletionTimestamp = None,
        Spec = ''templates/workers_azure_machine_template.yaml.tmpl ClusterID=abc123''\<rparr>)"
  "workersMachineDeployment stubExternals cachedMigrator =
     Inr (MachineDeploymentObj
       \<lparr>Kind = ''MachineDeployment'',
        Name = ''templates/workers_machine_deployment.yaml.tmpl ClusterID=abc123 K8sVersion=v1.19.9'',
        Namespace = ''default'', Labels = Map.empty, DeletionTimestamp = None,
        Spec = ''templates/workers_machine_deployment.yaml.tmpl ClusterID=abc123 K8sVersion=v1.19.9''\<rparr>)"
  by (simp_all add: masterAzureMachineTemplate_def workersKubeadmConfigTemplate_def
      workersAzureMachineTemplate_def workersMachineDeployment_def stubExternals_def
      cachedMigrator_def)

lemma Create_memClient_present: "Create memClient [x] x = (Some (StatusError StatusReasonAlreadyExists), [x])"
  by (simp add: memClient_def memCreate_def)

theorem write_steps_return_create_errors_witness:
  "createProxyConfigSecret (refusingClient (StatusError StatusReasonForbidden)) cachedMigrator kindedStore =
     (Some (Mask (StatusError StatusReasonForbidden)), kindedStore) \<and>
   createKubeadmControlPlane stubExternals (refusingClient (StatusError StatusReasonForbidden))
       cachedMigrator kindedStore =
     (Returned (Some (Mask (StatusError StatusReasonForbidden))), kindedStore) \<and>
   createMasterAzureMachineTemplate stubExternals (refusingClient (StatusError StatusReasonForbidden))
       cachedMigrator kindedStore =
     (Some (Mask (StatusError StatusReasonForbidden)), kindedStore) \<and>
   createWorkersKubeadmConfigTemplate stubExternals (refusingClient (StatusError StatusReasonForbidden))
       cachedMigrator kindedStore =
     (Some (Mask (StatusError StatusReasonForbidden)), kindedStore) \<and>
   createWorkersAzureMachineTemplate stubExternals (refusingClient (StatusError StatusReasonForbidden))
       cachedMigrator kindedStore =
     (Some (Mask (StatusError StatusReasonForbidden)), kindedStore) \<and>
   createWorkersMachineDeployment stubExternals (refusingClient (StatusError StatusReasonForbidden))
       cachedMigrator kindedStore =
     (Some (Mask (StatusError StatusReasonForbidden)), kindedStore) \<and>
   runWriteSteps stubExternals (refusingClient (StatusError StatusReasonForbidden)) cachedMigrator
       [CreateProxyConfigSecret, CreateKubeadmControlPlane] kindedStore =
     (Returned (Some (Mask (Mask (StatusError StatusReasonForbidden)))), kindedStore) \<and>
   createProxyConfigSecret memClient cachedMigrator [proxyConfigSecret cachedMigrator] =
     (None, [proxyConfigSecret cachedMigrator]) \<and>
   createProxyConfigSecret memClient cachedMigrator [] = (None, [proxyConfigSecret cachedMigrator])"
proof -
  let ?E = "StatusError StatusReasonForbidden"
  let ?rc = "refusingClient ?E"
  let ?m = cachedMigrator
  let ?cl = "azureClusterWith ''AzureCluster'' ''api.abc123.k8s.example.installation.com'' ''10.0.0.0/16''"
  have cached: "crs ?m ''AzureCluster'' = Some (AzureClusterObj ?cl)"
    by (simp add: cachedMigrator_def EncryptionSecret_def)
  obtain kcp where kcp: "kubeadmControlPlane stubExternals ?rc kindedStore ?m ?cl = Returned (Inr kcp)"
    using kubeadmControlPlane_kindedStore by (simp add: kubeadmControlPlane_refusingClient)
  obtain mamt where mamt: "masterAzureMachineTemplate stubExternals ?m = Inr mamt"
    using template_steps_stubExternals(1) by blast
  obtain kct where kct: "workersKubeadmConfigTemplate stubExternals ?m = Inr kct"
    using template_steps_stubExternals(2) by blast
  obtain wamt where wamt: "workersAzureMachineTemplate stubExternals ?m = Inr wamt"
    using template_steps_stubExternals(3) by blast
  obtain md where md: "workersMachineDeployment stubExternals ?m = Inr md"
    using template_steps_stubExternals(4) by blast
  have step: "runWriteStep stubExternals ?rc ?m CreateProxyConfigSecret kindedStore =
      (Returned (Some (Mask ?E)), kindedStore)"
    by (simp add: noPanic_def createProxyConfigSecret_def Create_refusingClient IsAlreadyExists_simps)
  have fresh: "Create memClient [] (proxyConfigSecret ?m) = (None, [proxyConfigSecret ?m])"
    by (simp add: memClient_def memCreate_def)
  note refused = write_steps_return_create_errors [of ?rc kindedStore ?m "Some ?E" kindedStore ?cl
      stubExternals kcp "Some ?E" kindedStore mamt "Some ?E" kindedStore kct "Some ?E" kindedStore
      wamt "Some ?E" kindedStore md "Some ?E" kindedStore CreateProxyConfigSecret "Mask ?E" kindedStore
      "[CreateKubeadmControlPlane]"]
  note present = write_steps_return_create_errors [of memClient "[proxyConfigSecret ?m]" ?m
      "Some (StatusError StatusReasonAlreadyExists)" "[proxyConfigSecret ?m]", THEN conjunct1]
  note absent = write_steps_return_create_errors [of memClient "[]" ?m None "[proxyConfigSecret ?m]",
      THEN conjunct1]
  from refused present absent cached kcp mamt kct wamt md step fresh show ?thesis
    by (simp add: Create_refusingClient Create_memClient_present IsAlreadyExists_simps)
qed

text \<open>
  C1. For a migrator whose cache holds the original encryption secret, the claim
  expects a no-op when the target secret exists and a created secret otherwise. The
  code panics in both cases, before it renders the payload or calls \<^verbatim>\<open>Create\<close>:
  the store is left as it was.
\<close>

theorem createEncryptionConfigSecret_panics_on_cached_secret:
  "crs cachedMigrator EncryptionSecret = Some (SecretObj (secretWith ''abc123-encryption'' ''c2VjcmV0'')) \<and>
   createEncryptionConfigSecret memClient cachedMigrator [] =
     (Panicked ''invalid memory address or nil pointer dereference'', []) \<and>
   createEncryptionConfigSecret memClient cachedMigrator
       [encryptionConfigSecret cachedMigrator (secretWith ''abc123-encryption'' ''c2VjcmV0'')] =
     (Panicked ''invalid memory address or nil pointer dereference'',
      [encryptionConfigSecret cachedMigrator (secretWith ''abc123-encryption'' ''c2VjcmV0'')])"
  by (simp add: createEncryptionConfigSecret_cases cachedMigrator_def EncryptionSecret_def)

lemma runWriteSteps_writePhase_first:
  "fst (createEncryptionConfigSecret c m s) \<noteq> Returned None \<Longrightarrow>
   fst (runWriteSteps ext c m writePhase s) \<noteq> Returned None \<and>
   snd (runWriteSteps ext c m writePhase s) = snd (createEncryptionConfigSecret c m s)"
  by (cases "createEncryptionConfigSecret c m s")
    (auto simp: writePhase_def split: outcome.splits option.splits)

text \<open>
  C2. The claim is about the states in which a run of the write phase succeeds. No
  run does: the first step never returns success, so for every client, migrator and
  state the phase ends there, with an error or a panic and the store as it was. With
  the source objects cached and stored, the phase panics.
\<close>

theorem write_phase_never_returns_success:
  "fst (runWriteSteps ext c m writePhase s) \<noteq> Returned None \<and>
   snd (runWriteSteps ext c m writePhase s) = s \<and>
   runWriteSteps stubExternals memClient cachedMigrator writePhase kindedStore =
     (Panicked ''invalid memory address or nil pointer dereference'', kindedStore)"
proof -
  have "runWriteSteps stubExternals memClient cachedMigrator writePhase kindedStore =
      (Panicked ''invalid memory address or nil pointer dereference'', kindedStore)"
    by (simp add: writePhase_def createEncryptionConfigSecret_cases cachedMigrator_def EncryptionSecret_def)
  with runWriteSteps_writePhase_first [OF createEncryptionConfigSecret_no_success, of ext c m s]
  show ?thesis by (simp add: createEncryptionConfigSecret_state)
qed

section \<open>Running the later write steps again\<close>

text \<open>
  Against the in-memory client, each write step after the first is idempotent: when
  it has succeeded, it succeeds again from the store it left, and from any store that
  extends it, without changing that store. So does any sequence of these steps.
\<close>

lemma Create_memClient:
  "Create memClient s x =
     (if objMeta x \<in> set (map objMeta s)
      then (Some (StatusError StatusReasonAlreadyExists), s) else (None, s @ [x]))"
  by (simp add: memClient_def memCreate_def)

lemma Create_memClient_again:
  assumes "Create memClient s x = (err, s')"
  shows "(if IsAlreadyExists err then None else map_option Mask err) = None \<and>
         (\<exists>ys. s' = s @ ys) \<and>
         (\<forall>zs. Create memClient (s' @ zs) x = (Some (StatusError StatusReasonAlreadyExists), s' @ zs))"
  using assms by (auto simp: Create_memClient IsAlreadyExists_simps split: if_splits)

lemma getFrom_append: "getFrom xs = Inr r \<Longrightarrow> getFrom (xs @ ys) = Inr r"
  by (cases xs) (auto simp: getFrom_def)

lemma GetRelease_memClient_append:
  "GetRelease memClient s key = Inr r \<Longrightarrow> GetRelease memClient (s @ ws) key = Inr r"
  by (simp add: memClient_def getFrom_append)

lemma getReleaseComponents_memClient_append:
  "getReleaseComponents memClient s v = Inr rc \<Longrightarrow>
   getReleaseComponents memClient (s @ ws) v = Inr rc"
  by (auto simp: getReleaseComponents_def Let_def GetRelease_memClient_append split: sum.splits)

lemma kubeadmControlPlane_release:
  "kubeadmControlPlane ext c s m cl = Returned (Inr x) \<Longrightarrow>
   \<exists>rc. getReleaseComponents c s (lookupString (Labels cl) ReleaseVersion) = Inr rc"
  by (auto simp: kubeadmControlPlane_def split: sum.splits outcome.splits)

lemma kubeadmControlPlane_same_release:
  assumes "getReleaseComponents c s2 (lookupString (Labels cl) ReleaseVersion) =
     getReleaseComponents c s (lookupString (Labels cl) ReleaseVersion)"
  shows "kubeadmControlPlane ext c s2 m cl = kubeadmControlPlane ext c s m cl"
  unfolding kubeadmControlPlane_def assms by (rule refl)

lemma kubeadmControlPlane_memClient_append:
  assumes "kubeadmControlPlane ext memClient s m cl = Returned (Inr x)"
  shows "kubeadmControlPlane ext memClient (s @ ws) m cl = Returned (Inr x)"
proof -
  from kubeadmControlPlane_release [OF assms] obtain rc where
    "getReleaseComponents memClient s (lookupString (Labels cl) ReleaseVersion) = Inr rc"
    by blast
  then have "getReleaseComponents memClient (s @ ws) (lookupString (Labels cl) ReleaseVersion) =
      getReleaseComponents memClient s (lookupString (Labels cl) ReleaseVersion)"
    by (simp add: getReleaseComponents_memClient_append)
  then have "kubeadmControlPlane ext memClient (s @ ws) m cl = kubeadmControlPlane ext memClient s m cl"
    by (rule kubeadmControlPlane_same_release)
  with assms show ?thesis by simp
qed

lemma createProxyConfigSecret_again:
  assumes "createProxyConfigSecret memClient m s = (None, s')"
  shows "(\<exists>ys. s' = s @ ys) \<and>
         (\<forall>zs. createProxyConfigSecret memClient m (s' @ zs) = (None, s' @ zs))"
proof -
  obtain err s1 where c: "Create memClient s (proxyConfigSecret m) = (err, s1)"
    by (cases "Create memClient s (proxyConfigSecret m)") auto
  note a = Create_memClient_again [OF c]
  from createProxyConfigSecret_policy [OF c] assms a have "s1 = s'" by simp
  with a show ?thesis
    by (auto simp: createProxyConfigSecret_def IsAlreadyExists_simps)
qed

lemma createKubeadmControlPlane_again:
  assumes "createKubeadmControlPlane ext memClient m s = (Returned None, s')"
  shows "(\<exists>ys. s' = s @ ys) \<and>
         (\<forall>zs. createKubeadmControlPlane ext memClient m (s' @ zs) = (Returned None, s' @ zs))"
proof -
  from assms obtain cl x where cached: "crs m ''AzureCluster'' = Some (AzureClusterObj cl)"
    and k: "kubeadmControlPlane ext memClient s m cl = Returned (Inr x)"
    by (auto simp: createKubeadmControlPlane_def split: option.splits obj.splits outcome.splits sum.splits)
  obtain err s1 where c: "Create memClient s x = (err, s1)"
    by (cases "Create memClient s x") auto
  note a = Create_memClient_again [OF c]
  from createKubeadmControlPlane_policy [OF cached k c] assms a have e: "s1 = s'" by simp
  from a e obtain ys where ys: "s' = s @ ys" by blast
  have "createKubeadmControlPlane ext memClient m (s' @ zs) = (Returned None, s' @ zs)" for zs
  proof -
    have "kubeadmControlPlane ext memClient (s' @ zs) m cl = Returned (Inr x)"
      using kubeadmControlPlane_memClient_append [OF k, of "ys @ zs"] ys by simp
    moreover from a e have
      "Create memClient (s' @ zs) x = (Some (StatusError StatusReasonAlreadyExists), s' @ zs)"
      by simp
    ultimately show ?thesis
      using createKubeadmControlPlane_policy [OF cached, of ext memClient "s' @ zs" x]
      by (simp add: IsAlreadyExists_simps)
  qed
  with ys show ?thesis by blast
qed

lemma createMasterAzureMachineTemplate_again:
  assumes "createMasterAzureMachineTemplate ext memClient m s = (None, s')"
  shows "(\<exists>ys. s' = s @ ys) \<and>
         (\<forall>zs. createMasterAzureMachineTemplate ext memClient m (s' @ zs) = (None, s' @ zs))"
proof -
  from assms obtain x where b: "masterAzureMachineTemplate ext m = Inr x"
    by (auto simp: createMasterAzureMachineTemplate_def split: sum.splits)
  obtain err s1 where c: "Create memClient s x = (err, s1)"
    by (cases "Create memClient s x") auto
  note a = Create_memClient_again [OF c]
  from createMasterAzureMachineTemplate_policy [OF b c] assms a have "s1 = s'" by simp
  with a b show ?thesis
    by (auto simp: createMasterAzureMachineTemplate_def IsAlreadyExists_simps)
qed

lemma createWorkersKubeadmConfigTemplate_again:
  assumes "createWorkersKubeadmConfigTemplate ext memClient m s = (None, s')"
  shows "(\<exists>ys. s' = s @ ys) \<and>
         (\<forall>zs. createWorkersKubeadmConfigTemplate ext memClient m (s' @ zs) = (None, s' @ zs))"
proof -
  from assms obtain x where b: "workersKubeadmConfigTemplate ext m = Inr x"
    by (auto simp: createWorkersKubeadmConfigTemplate_def split: sum.splits)
  obtain err s1 where c: "Create memClient s x = (err, s1)"
    by (cases "Create memClient s x") auto
  note a = Create_memClient_again [OF c]
  from createWorkersKubeadmConfigTemplate_policy [OF b c] assms a have "s1 = s'" by simp
  with a b show ?thesis
    by (auto simp: createWorkersKubeadmConfigTemplate_def IsAlreadyExists_simps)
qed

lemma createWorkersAzureMachineTemplate_again:
  assumes "createWorkersAzureMachineTemplate ext memClient m s = (None, s')"
  shows "(\<exists>ys. s' = s @ ys) \<and>
         (\<forall>zs. createWorkersAzureMachineTemplate ext memClient m (s' @ zs) = (None, s' @ zs))"
proof -
  from assms obtain x where b: "workersAzureMachineTemplate ext m = Inr x"
    by (auto simp: createWorkersAzureMachineTemplate_def split: sum.splits)
  obtain err s1 where c: "Create memClient s x = (err, s1)"
    by (cases "Create memClient s x") auto
  note a = Create_memClient_again [OF c]
  from createWorkersAzureMachineTemplate_policy [OF b c] assms a have "s1 = s'" by simp
  with a b show ?thesis
    by (auto simp: createWorkersAzureMachineTemplate_def IsAlreadyExists_simps)
qed

lemma createWorkersMachineDeployment_again:
  assumes "createWorkersMachineDeployment ext memClient m s = (None, s')"
  shows "(\<exists>ys. s' = s @ ys) \<and>
         (\<forall>zs. createWorkersMachineDeployment ext memClient m (s' @ zs) = (None, s' @ zs))"
proof -
  from assms obtain x where b: "workersMachineDeployment ext m = Inr x"
    by (auto simp: createWorkersMachineDeployment_def split: sum.splits)
  obtain err s1 where c: "Create memClient s x = (err, s1)"
    by (cases "Create memClient s x") auto
  note a = Create_memClient_again [OF c]
  from createWorkersMachineDeployment_policy [OF b c] assms a have "s1 = s'" by simp
  with a b show ?thesis
    by (auto simp: createWorkersMachineDeployment_def IsAlreadyExists_simps)
qed

lemma noPanic_Returned: "noPanic r = (Returned e, s') \<longleftrightarrow> r = (e, s')"
  by (cases r) (auto simp: noPanic_def)

lemma runWriteStep_again:
  assumes "step \<noteq> CreateEncryptionConfigSecret"
    and "runWriteStep ext memClient m step s = (Returned None, s')"
  shows "(\<exists>ys. s' = s @ ys) \<and>
         (\<forall>zs. runWriteStep ext memClient m step (s' @ zs) = (Returned None, s' @ zs))"
proof (cases step)
  case CreateEncryptionConfigSecret
  with assms(1) show ?thesis by simp
next
  case CreateProxyConfigSecret
  with assms(2) createProxyConfigSecret_again [of m s s'] show ?thesis
    by (simp add: noPanic_Returned)
next
  case CreateKubeadmControlPlane
  with assms(2) createKubeadmControlPlane_again [of ext m s s'] show ?thesis by simp
next
  case CreateMasterAzureMachineTemplate
  with assms(2) createMasterAzureMachineTemplate_again [of ext m s s'] show ?thesis
    by (simp add: noPanic_Returned)
next
  case CreateWorkersKubeadmConfigTemplate
  with assms(2) createWorkersKubeadmConfigTemplate_again [of ext m s s'] show ?thesis
    by (simp add: noPanic_Returned)
next
  case CreateWorkersAzureMachineTemplate
  with assms(2) createWorkersAzureMachineTemplate_again [of ext m s s'] show ?thesis
    by (simp add: noPanic_Returned)
next
  case CreateWorkersMachineDeployment
  with assms(2) createWorkersMachineDeployment_again [of ext m s s'] show ?thesis
    by (simp add: noPanic_Returned)
qed

lemma runWriteSteps_again:
  assumes "CreateEncryptionConfigSecret \<notin> set steps"
    and "runWriteSteps ext memClient m steps s = (Returned None, s')"
  shows "(\<exists>ys. s' = s @ ys) \<and>
         (\<forall>zs. runWriteSteps ext memClient m steps (s' @ zs) = (Returned None, s' @ zs))"
  using assms
proof (induction steps arbitrary: s)
  case Nil
  then show ?case by simp
next
  case (Cons step steps)
  from Cons.prems(2) obtain s1 where
    first: "runWriteStep ext memClient m step s = (Returned None, s1)" and
    rest: "runWriteSteps ext memClient m steps s1 = (Returned None, s')"
    by (auto split: prod.splits outcome.splits option.splits)
  from Cons.prems(1) have ne: "step \<noteq> CreateEncryptionConfigSecret"
    and nin: "CreateEncryptionConfigSecret \<notin> set steps" by auto
  from runWriteStep_again [OF ne first] obtain ys1 where
    ys1: "s1 = s @ ys1" and
    again1: "\<And>zs. runWriteStep ext memClient m step (s1 @ zs) = (Returned None, s1 @ zs)"
    by blast
  from Cons.IH [OF nin rest] obtain ys2 where
    ys2: "s' = s1 @ ys2" and
    again2: "\<And>zs. runWriteSteps ext memClient m steps (s' @ zs) = (Returned None, s' @ zs)"
    by blast
  have "runWriteSteps ext memClient m (step # steps) (s' @ zs) = (Returned None, s' @ zs)" for zs
  proof -
    have "runWriteStep ext memClient m step (s' @ zs) = (Returned None, s' @ zs)"
      using again1 [of "ys2 @ zs"] ys2 by simp
    with again2 [of zs] show ?thesis by simp
  qed
  moreover from ys1 ys2 have "\<exists>ys. s' = s @ ys" by simp
  ultimately show ?case by blast
qed

lemma later_write_steps_idempotent:
  assumes "runWriteSteps ext memClient m (tl writePhase) s = (Returned None, s')"
  shows "runWriteSteps ext memClient m (tl writePhase) s' = (Returned None, s')"
proof -
  have "CreateEncryptionConfigSecret \<notin> set (tl writePhase)" by (simp add: writePhase_def)
  from runWriteSteps_again [OF this assms] have
    "runWriteSteps ext memClient m (tl writePhase) (s' @ []) = (Returned None, s' @ [])" by blast
  then show ?thesis by simp
qed

lemma createProxyConfigSecret_memClient: "fst (createProxyConfigSecret memClient m s) = None"
  by (simp add: createProxyConfigSecret_def Create_memClient IsAlreadyExists_simps)

lemma createKubeadmControlPlane_memClient:
  "crs m ''AzureCluster'' = Some (AzureClusterObj cl) \<Longrightarrow>
   kubeadmControlPlane ext memClient s m cl = Returned (Inr x) \<Longrightarrow>
   fst (createKubeadmControlPlane ext memClient m s) = Returned None"
  by (simp add: createKubeadmControlPlane_def Create_memClient IsAlreadyExists_simps)

lemma createMasterAzureMachineTemplate_memClient:
  "masterAzureMachineTemplate ext m = Inr x \<Longrightarrow>
   fst (createMasterAzureMachineTemplate ext memClient m s) = None"
  by (simp add: createMasterAzureMachineTemplate_def Create_memClient IsAlreadyExists_simps)

lemma createWorkersKubeadmConfigTemplate_memClient:
  "workersKubeadmConfigTemplate ext m = Inr x \<Longrightarrow>
   fst (createWorkersKubeadmConfigTemplate ext memClient m s) = None"
  by (simp add: createWorkersKubeadmConfigTemplate_def Create_memClient IsAlreadyExists_simps)

lemma createWorkersAzureMachineTemplate_memClient:
  "workersAzureMachineTemplate ext m = Inr x \<Longrightarrow>
   fst (createWorkersAzureMachineTemplate ext memClient m s) = None"
  by (simp add: createWorkersAzureMachineTemplate_def Create_memClient IsAlreadyExists_simps)

lemma createWorkersMachineDeployment_memClient:
  "workersMachineDeployment ext m = Inr x \<Longrightarrow>
   fst (createWorkersMachineDeployment ext memClient m s) = None"
  by (simp add: createWorkersMachineDeployment_def Create_memClient IsAlreadyExists_simps)

lemma later_write_steps_succeed:
  "fst (runWriteSteps stubExternals memClient cachedMigrator (tl writePhase) kindedStore) =
     Returned None"
proof -
  let ?cl = "azureClusterWith ''AzureCluster'' ''api.abc123.k8s.example.installation.com'' ''10.0.0.0/16''"
  let ?m = cachedMigrator
  have cached: "crs ?m ''AzureCluster'' = Some (AzureClusterObj ?cl)"
    by (simp add: cachedMigrator_def EncryptionSecret_def)
  obtain s1 where s1: "createProxyConfigSecret memClient ?m kindedStore = (None, s1)"
    using createProxyConfigSecret_memClient [of ?m kindedStore]
    by (cases "createProxyConfigSecret memClient ?m kindedStore") auto
  from createProxyConfigSecret_again [OF s1] obtain ws where ws: "s1 = kindedStore @ ws" by blast
  note b = kubeadmControlPlane_memClient_append [OF kubeadmControlPlane_kindedStore, of ws]
  obtain s2 where s2: "createKubeadmControlPlane stubExternals memClient ?m s1 = (Returned None, s2)"
    using createKubeadmControlPlane_memClient [OF cached b] ws
    by (cases "createKubeadmControlPlane stubExternals memClient ?m s1") auto
  obtain s3 where s3: "createMasterAzureMachineTemplate stubExternals memClient ?m s2 = (None, s3)"
    using createMasterAzureMachineTemplate_memClient [OF template_steps_stubExternals(1), of s2]
    by (cases "createMasterAzureMachineTemplate stubExternals memClient ?m s2") auto
  obtain s4 where s4: "createWorkersKubeadmConfigTemplate stubExternals memClient ?m s3 = (None, s4)"
    using createWorkersKubeadmConfigTemplate_memClient [OF template_steps_stubExternals(2), of s3]
    by (cases "createWorkersKubeadmConfigTemplate stubExternals memClient ?m s3") auto
  obtain s5 where s5: "createWorkersAzureMachineTemplate stubExternals memClient ?m s4 = (None, s5)"
    using createWorkersAzureMachineTemplate_memClient [OF template_steps_stubExternals(3), of s4]
    by (cases "createWorkersAzureMachineTemplate stubExternals memClient ?m s4") auto
  obtain s6 where s6: "createWorkersMachineDeployment stubExternals memClient ?m s5 = (None, s6)"
    using createWorkersMachineDeployment_memClient [OF template_steps_stubExternals(4), of s5]
    by (cases "createWorkersMachineDeployment stubExternals memClient ?m s5") auto
  from s1 s2 s3 s4 s5 s6 show ?thesis
    by (simp add: writePhase_def noPanic_def)
qed

end
